theory Spec2Isabelle
  imports Main "HOL-Library.AList"
begin

section \<open>Document-database access rules (firestore.rules)\<close>

text \<open>
  The file holds two rule sets for the same collections.  A rule condition is a boolean
  expression over the request; a condition whose evaluation fails (a field that is not
  there) grants nothing, so a lookup of an absent field is \<open>None\<close> and compares unequal
  to every value.
\<close>

datatype rval = VNull | VBool bool | VInt int | VString string

record auth_ctx =
  uid :: string
  token :: "string \<rightharpoonup> rval"

text \<open>\<open>auth\<close> is \<open>request.auth\<close> (\<open>None\<close> for \<open>null\<close>), \<open>resource_data\<close> is
  \<open>request.resource.data\<close>, the document submitted by a write.\<close>

record request =
  auth :: "auth_ctx option"
  resource_data :: "string \<rightharpoonup> rval"

datatype ruleset = RulesetA | RulesetB

text \<open>Rule set A: \<open>request.auth != null && request.auth.token.isAdmin == true\<close>.\<close>

definition isAdmin :: "request \<Rightarrow> bool" where
  "isAdmin req =
     (case auth req of
        None \<Rightarrow> False
      | Some a \<Rightarrow> token a ''isAdmin'' = Some (VBool True))"

text \<open>Rule set B: \<open>request.auth != null\<close>.\<close>

definition isAdmin_B :: "request \<Rightarrow> bool" where
  "isAdmin_B req = (auth req \<noteq> None)"

text \<open>\<open>exists(/databases/$(database)/documents/teachers/$(request.auth.uid))\<close>, the same
  in both rule sets; \<open>teacherDocs\<close> is the set of keys of the teachers collection.\<close>

definition isTeacher :: "string set \<Rightarrow> request \<Rightarrow> bool" where
  "isTeacher teacherDocs req =
     (case auth req of
        None \<Rightarrow> False
      | Some a \<Rightarrow> uid a \<in> teacherDocs)"

text \<open>
  \<open>allow create\<close> on \<open>/students/{studentDocId}\<close>.  Rule set A:
  \<open>isAdmin() && request.resource.data.studentId == studentDocId\<close>; rule set B:
  \<open>isAdmin()\<close>.  No other \<open>match\<close> block of either rule set covers the path.
\<close>

definition students_allow_create_A :: "request \<Rightarrow> string \<Rightarrow> bool" where
  "students_allow_create_A req studentDocId =
     (isAdmin req \<and> resource_data req ''studentId'' = Some (VString studentDocId))"

definition students_allow_create_B :: "request \<Rightarrow> string \<Rightarrow> bool" where
  "students_allow_create_B req studentId = isAdmin_B req"

fun students_allow_create :: "ruleset \<Rightarrow> request \<Rightarrow> string \<Rightarrow> bool" where
  "students_allow_create RulesetA req k = students_allow_create_A req k"
| "students_allow_create RulesetB req k = students_allow_create_B req k"

text \<open>Concrete requests used below: a signed-in caller without the admin claim who
  submits a student document whose \<open>studentId\<close> is not the document key, and callers
  whose \<open>isAdmin\<close> claim is the boolean or the string.\<close>

definition plain_caller :: auth_ctx where
  "plain_caller = \<lparr>uid = ''u1'', token = Map.empty\<rparr>"

definition mismatched_create :: request where
  "mismatched_create =
     \<lparr>auth = Some plain_caller, resource_data = [''studentId'' \<mapsto> VString ''S002'']\<rparr>"

definition admin_caller :: auth_ctx where
  "admin_caller = \<lparr>uid = ''u2'', token = [''isAdmin'' \<mapsto> VBool True]\<rparr>"

definition string_claim_caller :: auth_ctx where
  "string_claim_caller = \<lparr>uid = ''u3'', token = [''isAdmin'' \<mapsto> VString ''true'']\<rparr>"

definition matching_create :: request where
  "matching_create =
     \<lparr>auth = Some admin_caller, resource_data = [''studentId'' \<mapsto> VString ''S001'']\<rparr>"

section \<open>Values of the page code\<close>

text \<open>
  \<open>s.includes(p)\<close>: \<open>p\<close> occurs in \<open>s\<close> as a contiguous run of characters.
\<close>

fun startsWith :: "string \<Rightarrow> string \<Rightarrow> bool" where
  "startsWith s [] = True"
| "startsWith [] (c # p) = False"
| "startsWith (d # s) (c # p) = (d = c \<and> startsWith s p)"

fun str_includes :: "string \<Rightarrow> string \<Rightarrow> bool" where
  "str_includes [] p = (p = [])"
| "str_includes (d # s) p = (startsWith (d # s) p \<or> str_includes s p)"

text \<open>\<open>s.toLowerCase()\<close> on the ASCII letters; other characters are left as they are.\<close>

definition lower_char :: "char \<Rightarrow> char" where
  "lower_char c =
     (let n = (of_char c :: nat) in if 65 \<le> n \<and> n \<le> 90 then char_of (n + 32) else c)"

definition toLowerCase :: "string \<Rightarrow> string" where
  "toLowerCase s = map lower_char s"

text \<open>A \<open>string | null\<close> value used as a condition: \<open>null\<close> and the empty string are
  falsy.\<close>

fun truthy :: "string option \<Rightarrow> bool" where
  "truthy None = False"
| "truthy (Some s) = (s \<noteq> [])"

text \<open>\<open>a || b\<close> on such a value.\<close>

definition orElse :: "string option \<Rightarrow> string \<Rightarrow> string" where
  "orElse a b = (case a of None \<Rightarrow> b | Some s \<Rightarrow> if s = [] then b else s)"

text \<open>
  The \<open>error\<close> member of a reply of the backend client (message and code are strings), and
  a value caught by \<open>catch (e: any)\<close>, of which the handlers read \<open>e.message\<close> only
  (\<open>None\<close> when there is none).
\<close>

record backend_error =
  err_message :: string
  err_code :: string

datatype thrown = Thrown (thrown_message: "string option")

definition throw_error :: "backend_error \<Rightarrow> thrown" where
  "throw_error e = Thrown (Some (err_message e))"

text \<open>An awaited backend call resolves to \<open>{ data, error }\<close> or rejects.\<close>

datatype 'a reply = Resolved "'a option" "backend_error option" | Rejected thrown

text \<open>The browser's local storage, \<open>getItem\<close> as application of the map.\<close>

type_synonym storage = "string \<rightharpoonup> string"

section \<open>Teacher dashboard (teacher/dashboard/page.tsx)\<close>

record teacher_profile =
  teacher_id :: string
  auth_user_id :: string
  full_name :: string
  email :: string
  subjects_taught :: string
  contact_number :: string
  assigned_classes :: "string list option"

record student =
  student_id_display :: string
  student_full_name :: string
  date_of_birth :: string
  grade_level :: string
  guardian_name :: string
  guardian_contact :: string
  contact_email :: "string option"

datatype audience = All | Students | Teachers

record announcement =
  ann_id :: string
  title :: string
  ann_message :: string
  target_audience :: audience
  author_name :: "string option"
  created_at :: string

text \<open>The three queries the page sends, and what the backend answers to each.\<close>

datatype query = QTeacherProfile string | QStudents "string list" | QAnnouncements

record teacher_backend =
  profileReply :: "string \<Rightarrow> teacher_profile reply"
  studentsReply :: "string list \<Rightarrow> student list reply"
  announcementsReply :: "announcement list reply"

text \<open>
  An object used as a dictionary (\<open>Record<string, StudentFromSupabase[]>\<close>): its own
  properties, a list of key-value pairs with distinct keys, and its prototype.
  \<open>Object.keys(m)\<close> is the set of \<open>map fst (own m)\<close> (the list is in insertion order,
  \<open>Object.keys\<close> lists integer-like keys first, so only facts that do not depend on the
  order are read from it).  \<open>proto m = None\<close> is the prototype of an object literal,
  \<open>Object.prototype\<close>; \<open>proto m = Some xs\<close> is the array \<open>xs\<close> as prototype.

  \<open>m[k] = v\<close> with an array \<open>v\<close>: the name \<open>__proto__\<close> is the accessor of
  \<open>Object.prototype\<close>, so the assignment makes \<open>v\<close> the prototype of \<open>m\<close> and adds no
  key; every other name becomes (or stays) an own key with value \<open>v\<close>.
\<close>

record class_map =
  own :: "(string \<times> student list) list"
  proto :: "student list option"

definition emptyObject :: class_map where
  "emptyObject = \<lparr>own = [], proto = None\<rparr>"

definition assignProp :: "string \<Rightarrow> student list \<Rightarrow> class_map \<Rightarrow> class_map" where
  "assignProp k v m =
     (if k = ''__proto__'' then m\<lparr>proto := Some v\<rparr>
      else m\<lparr>own := AList.update k v (own m)\<rparr>)"

text \<open>
  The component: its state variables, the two refs, the calls of \<open>router.push\<close> in
  order (\<open>pushed\<close>) and the queries sent in order (\<open>issued\<close>).
\<close>

record teacher_page =
  teacherProfile :: "teacher_profile option"
  studentsByClass :: class_map
  announcements :: "announcement list"
  isLoading :: bool
  isLoadingAnnouncements :: bool
  announcementsError :: "string option"
  error :: "string option"
  isMounted :: bool
  supabaseRef :: "teacher_backend option"
  pushed :: "string list"
  issued :: "query list"

text \<open>\<open>useState\<close> initial values.\<close>

definition teacher_page_init :: teacher_page where
  "teacher_page_init =
     \<lparr>teacherProfile = None, studentsByClass = emptyObject, announcements = [],
      isLoading = True, isLoadingAnnouncements = True, announcementsError = None,
      error = None, isMounted = True, supabaseRef = None, pushed = [], issued = []\<rparr>"

text \<open>
  An \<open>await\<close> of a query: the query is sent, and when the page code resumes the
  component may have been unmounted in between; \<open>mountedAfter n\<close> is the value of
  \<open>isMounted.current\<close> when the code resumes after the \<open>n\<close>-th query of the log.
\<close>

definition await :: "(nat \<Rightarrow> bool) \<Rightarrow> query \<Rightarrow> teacher_page \<Rightarrow> teacher_page" where
  "await mountedAfter q st =
     st\<lparr>issued := issued st @ [q], isMounted := mountedAfter (Suc (length (issued st)))\<rparr>"

text \<open>
  The loop of lines 103-106:
  \<open>for (const className of classes) m[className] = students.filter(s => s.grade_level === className)\<close>.
\<close>

fun groupByClass :: "student list \<Rightarrow> string list \<Rightarrow> class_map \<Rightarrow> class_map" where
  "groupByClass students [] m = m"
| "groupByClass students (className # rest) m =
     groupByClass students rest
       (assignProp className (filter (\<lambda>s. grade_level s = className) students) m)"

text \<open>The body of \<open>try\<close>: \<open>Inl\<close> is a throw, with the state reached when it happens.\<close>

definition rosterStep ::
  "(nat \<Rightarrow> bool) \<Rightarrow> teacher_backend \<Rightarrow> teacher_profile option \<Rightarrow> teacher_page
   \<Rightarrow> (thrown \<times> teacher_page) + teacher_page" where
  "rosterStep mountedAfter be profileData st =
     (case profileData of
        None \<Rightarrow>
          Inr (if isMounted st
               then st\<lparr>error := Some ''Your teacher profile could not be found. Please contact an administrator.''\<rparr>
               else st)
      | Some p \<Rightarrow>
          (let st1 = (if isMounted st then st\<lparr>teacherProfile := Some p\<rparr> else st) in
           if (case assigned_classes p of None \<Rightarrow> False | Some cs \<Rightarrow> length cs > 0)
           then
             (let cs = the (assigned_classes p);
                  st2 = await mountedAfter (QStudents cs) st1
              in case studentsReply be cs of
                   Rejected e \<Rightarrow> Inl (e, st2)
                 | Resolved allAssignedStudents (Some studentsError) \<Rightarrow>
                     Inl (throw_error studentsError, st2)
                 | Resolved allAssignedStudents None \<Rightarrow>
                     (let studentsForTeacher =
                            groupByClass (case allAssignedStudents of None \<Rightarrow> [] | Some xs \<Rightarrow> xs)
                              cs emptyObject
                      in Inr (if isMounted st2
                              then st2\<lparr>studentsByClass := studentsForTeacher\<rparr> else st2)))
           else Inr (if isMounted st1 then st1\<lparr>studentsByClass := emptyObject\<rparr> else st1)))"

definition announcementsStep ::
  "(nat \<Rightarrow> bool) \<Rightarrow> teacher_backend \<Rightarrow> teacher_page \<Rightarrow> (thrown \<times> teacher_page) + teacher_page" where
  "announcementsStep mountedAfter be st =
     (let st1 = (if isMounted st then st\<lparr>isLoadingAnnouncements := True\<rparr> else st);
          st2 = st1\<lparr>announcementsError := None\<rparr>;
          st3 = await mountedAfter QAnnouncements st2
      in case announcementsReply be of
           Rejected e \<Rightarrow> Inl (e, st3)
         | Resolved announcementData (Some fetchAnnError) \<Rightarrow> Inl (throw_error fetchAnnError, st3)
         | Resolved announcementData None \<Rightarrow>
             Inr (if isMounted st3
                  then st3\<lparr>announcements := (case announcementData of None \<Rightarrow> [] | Some xs \<Rightarrow> xs)\<rparr>
                  else st3))"

definition profileStep ::
  "(nat \<Rightarrow> bool) \<Rightarrow> teacher_backend \<Rightarrow> string \<Rightarrow> teacher_page \<Rightarrow> (thrown \<times> teacher_page) + teacher_page" where
  "profileStep mountedAfter be teacherAuthUid st =
     (let st1 = await mountedAfter (QTeacherProfile teacherAuthUid) st
      in case profileReply be teacherAuthUid of
           Rejected e \<Rightarrow> Inl (e, st1)
         | Resolved profileData (Some profileError) \<Rightarrow> Inl (throw_error profileError, st1)
         | Resolved profileData None \<Rightarrow> rosterStep mountedAfter be profileData st1)"

text \<open>Lines 81-113, then lines 115-124 when nothing was thrown.\<close>

definition tryBody ::
  "(nat \<Rightarrow> bool) \<Rightarrow> teacher_backend \<Rightarrow> string \<Rightarrow> teacher_page \<Rightarrow> (thrown \<times> teacher_page) + teacher_page" where
  "tryBody mountedAfter be teacherAuthUid st =
     (case profileStep mountedAfter be teacherAuthUid st of
        Inl t \<Rightarrow> Inl t
      | Inr st2 \<Rightarrow> announcementsStep mountedAfter be st2)"

text \<open>The \<open>catch\<close> block (lines 126-135).\<close>

definition catchBlock :: "thrown \<Rightarrow> teacher_page \<Rightarrow> teacher_page" where
  "catchBlock e st =
     (let errorMessage = orElse (thrown_message e) ''An unknown error occurred'' in
      if str_includes errorMessage ''announcements'' then
        (if isMounted st
         then st\<lparr>announcementsError := Some (''Failed to load announcements: '' @ errorMessage)\<rparr>
         else st)
      else if str_includes errorMessage ''profile'' \<or> str_includes errorMessage ''students'' then
        (if isMounted st
         then st\<lparr>error :=
                Some (if truthy (error st)
                      then the (error st) @ '' Failed to load dashboard data: '' @ errorMessage
                      else ''Failed to load dashboard data: '' @ errorMessage)\<rparr>
         else st)
      else
        (if isMounted st
         then st\<lparr>error :=
                Some (if truthy (error st)
                      then the (error st) @ '' An unexpected error occurred.''
                      else ''An unexpected error occurred.'')\<rparr>
         else st))"

text \<open>\<open>try { ... } catch (e) { ... }\<close>: a throw of the body goes to the \<open>catch\<close> block.\<close>

definition tryCatch :: "(thrown \<times> teacher_page) + teacher_page \<Rightarrow> teacher_page" where
  "tryCatch r = (case r of Inl (e, s) \<Rightarrow> catchBlock e s | Inr s \<Rightarrow> s)"

text \<open>The \<open>finally\<close> block.\<close>

definition finallyBlock :: "teacher_page \<Rightarrow> teacher_page" where
  "finallyBlock st = (if isMounted st then st\<lparr>isLoadingAnnouncements := False\<rparr> else st)"

text \<open>
  \<open>loadDashboardData\<close>.  \<open>key\<close> is the constant \<open>TEACHER_LOGGED_IN_UID_KEY\<close> of
  \<open>@/lib/constants\<close>, \<open>ls\<close> the local storage.
\<close>

definition loadDashboardData ::
  "string \<Rightarrow> storage \<Rightarrow> (nat \<Rightarrow> bool) \<Rightarrow> teacher_page \<Rightarrow> teacher_page" where
  "loadDashboardData key ls mountedAfter st =
     (if \<not> isMounted st \<or> supabaseRef st = None then st
      else
        (let be = the (supabaseRef st);
             st1 = st\<lparr>isLoading := True, error := None\<rparr>;
             teacherAuthUid = ls key;
             st2 =
               (if truthy teacherAuthUid then
                  finallyBlock (tryCatch (tryBody mountedAfter be (the teacherAuthUid) st1))
                else if isMounted st1 then
                  st1\<lparr>error := Some ''Not authenticated. Please login.'',
                      pushed := pushed st1 @ [''/auth/teacher/login'']\<rparr>
                else st1)
         in if isMounted st2 then st2\<lparr>isLoading := False\<rparr> else st2))"

text \<open>
  The effect that runs on mount: it sets \<open>isMounted.current = true\<close>, stores the
  client that \<open>getSupabase()\<close> returns, and calls \<open>loadDashboardData\<close>.
\<close>

definition teacherDashboardEffect ::
  "string \<Rightarrow> storage \<Rightarrow> teacher_backend option \<Rightarrow> (nat \<Rightarrow> bool) \<Rightarrow> teacher_page \<Rightarrow> teacher_page" where
  "teacherDashboardEffect key ls getSupabase mountedAfter st =
     loadDashboardData key ls mountedAfter (st\<lparr>isMounted := True, supabaseRef := getSupabase\<rparr>)"

subsection \<open>What the dashboard renders\<close>

text \<open>
  The component has four \<open>return\<close> statements (lines 155-351).  \<open>ProfileIssueCard e
  login hint\<close> is the first error card: the text, whether the "Go to Login" button is
  there and whether the hint paragraph is.  \<open>ProfileNotLoadedCard\<close> always has the
  button.  \<open>DashboardReached\<close> says that none of the three early returns is taken, so
  that the component goes on to evaluate the dashboard of lines 215-351; of that, the
  announcements card is given below, and evaluating it can throw.
\<close>

datatype teacher_view =
    LoadingView
  | ProfileIssueCard string bool bool
  | ProfileNotLoadedCard
  | DashboardReached

definition nonEmptyClasses :: "teacher_profile \<Rightarrow> bool" where
  "nonEmptyClasses p = (case assigned_classes p of None \<Rightarrow> False | Some cs \<Rightarrow> length cs > 0)"

definition renderTeacherDashboard :: "teacher_page \<Rightarrow> teacher_view" where
  "renderTeacherDashboard st =
     (if isLoading st then LoadingView
      else if truthy (error st)
              \<and> (teacherProfile st = None
                  \<or> str_includes (the (error st)) ''profile could not be found'')
      then
        (let e = the (error st) in
         ProfileIssueCard e
           (str_includes e ''Not authenticated'')
           ((str_includes e ''profile could not be found''
               \<or> str_includes e ''Failed to load dashboard data'')
            \<and> \<not> str_includes e ''Not authenticated''))
      else if teacherProfile st = None \<and> \<not> isLoading st then ProfileNotLoadedCard
      else DashboardReached)"

text \<open>
  The announcements card (lines 308-342).  Each of \<open>announcements.slice(0, 5)\<close> becomes
  a card with its title, the line "By: author | time" and its message.  The time is
  \<open>formatDistanceToNow(new Date(ann.created_at), { addSuffix: true })\<close> of the date
  library: \<open>relativeTime\<close> gives its text, and \<open>None\<close> where \<open>created_at\<close> does not
  parse as a date, on which the call throws a \<open>RangeError\<close> and with it the whole
  render.  The "View All" element is under \<open>announcements.length > 5\<close>.
\<close>

datatype render_error = RangeError

record ann_card =
  card_key :: string
  card_title :: string
  card_description :: string
  card_message :: string

definition cardFor :: "(string \<Rightarrow> string option) \<Rightarrow> announcement \<Rightarrow> render_error + ann_card" where
  "cardFor relativeTime ann =
     (case relativeTime (created_at ann) of
        None \<Rightarrow> Inl RangeError
      | Some t \<Rightarrow>
          Inr \<lparr>card_key = ann_id ann, card_title = title ann,
               card_description = ''By: '' @ orElse (author_name ann) ''Admin'' @ '' | '' @ t,
               card_message = ann_message ann\<rparr>)"

text \<open>\<open>xs.map(ann => card)\<close>, left to right, stopping at the first throw.\<close>

fun renderCards :: "(string \<Rightarrow> string option) \<Rightarrow> announcement list \<Rightarrow> render_error + ann_card list" where
  "renderCards relativeTime [] = Inr []"
| "renderCards relativeTime (ann # rest) =
     (case cardFor relativeTime ann of
        Inl e \<Rightarrow> Inl e
      | Inr c \<Rightarrow>
          (case renderCards relativeTime rest of
             Inl e \<Rightarrow> Inl e
           | Inr cs \<Rightarrow> Inr (c # cs)))"

datatype ann_body = AnnLoading | AnnError string | AnnEmpty | AnnCards "ann_card list"

record announcements_card =
  ann_body :: ann_body
  viewAll :: bool

definition announcementsCard ::
  "(string \<Rightarrow> string option) \<Rightarrow> teacher_page \<Rightarrow> render_error + announcements_card" where
  "announcementsCard relativeTime st =
     (if isLoadingAnnouncements st
      then Inr \<lparr>ann_body = AnnLoading, viewAll = (length (announcements st) > 5)\<rparr>
      else if truthy (announcementsError st)
      then Inr \<lparr>ann_body = AnnError (the (announcementsError st)),
                viewAll = (length (announcements st) > 5)\<rparr>
      else if length (announcements st) = 0
      then Inr \<lparr>ann_body = AnnEmpty, viewAll = (length (announcements st) > 5)\<rparr>
      else
        (case renderCards relativeTime (take 5 (announcements st)) of
           Inl e \<Rightarrow> Inl e
         | Inr cards \<Rightarrow>
             Inr \<lparr>ann_body = AnnCards cards, viewAll = (length (announcements st) > 5)\<rparr>))"

section \<open>Student attendance page (student/attendance/page.tsx)\<close>

text \<open>A document of the document database: its fields.  \<open>getDoc\<close> gives the data of the
  document when it exists, \<open>getDocs\<close> the key and data of each document of the query;
  either may throw.\<close>

type_synonym doc = "string \<rightharpoonup> rval"

datatype 'a outcome = Returned 'a | Threw thrown

record firestore =
  getDoc :: "string \<Rightarrow> string \<Rightarrow> doc option outcome"
  getDocs :: "string \<Rightarrow> (string \<times> doc) list outcome"

text \<open>
  The component.  It has no router; \<open>pushed_att\<close> lists the navigations the load asks
  for, \<open>reads_att\<close> the number of backend reads started.
\<close>

record attendance_page =
  loggedInStudent :: "doc option"
  attendanceHistory :: "doc list"
  isLoading_att :: bool
  error_att :: "string option"
  isMounted_att :: bool
  pushed_att :: "string list"
  reads_att :: nat

definition attendance_page_init :: attendance_page where
  "attendance_page_init =
     \<lparr>loggedInStudent = None, attendanceHistory = [], isLoading_att = True,
      error_att = None, isMounted_att = True, pushed_att = [], reads_att = 0\<rparr>"

definition await_att :: "(nat \<Rightarrow> bool) \<Rightarrow> attendance_page \<Rightarrow> attendance_page" where
  "await_att mountedAfter st =
     st\<lparr>reads_att := Suc (reads_att st), isMounted_att := mountedAfter (Suc (reads_att st))\<rparr>"

text \<open>\<open>{ k: v, ...data }\<close>: the fields of \<open>data\<close>, and \<open>k\<close> where \<open>data\<close> has none.\<close>

definition withKey :: "string \<Rightarrow> string \<Rightarrow> doc \<Rightarrow> doc" where
  "withKey k v data = [k \<mapsto> VString v] ++ data"

text \<open>The body of \<open>try\<close> (lines 73-99): \<open>Inl\<close> is a throw, \<open>Inr\<close> a normal end or the
  \<open>return\<close> of line 82; \<open>finally\<close> runs after each.\<close>

definition tryBody_att ::
  "firestore \<Rightarrow> (nat \<Rightarrow> bool) \<Rightarrow> string \<Rightarrow> attendance_page \<Rightarrow> (thrown \<times> attendance_page) + attendance_page" where
  "tryBody_att db mountedAfter studentId st =
     (let st1 = await_att mountedAfter st
      in case getDoc db ''students'' studentId of
           Threw e \<Rightarrow> Inl (e, st1)
         | Returned None \<Rightarrow>
             Inr (if isMounted_att st1
                  then st1\<lparr>error_att := Some ''Student profile not found. Please contact administration.'',
                           isLoading_att := False\<rparr>
                  else st1)
         | Returned (Some data) \<Rightarrow>
             (let studentData = withKey ''studentId'' studentId data;
                  st2 = (if isMounted_att st1 then st1\<lparr>loggedInStudent := Some studentData\<rparr> else st1);
                  st3 = await_att mountedAfter st2
              in case getDocs db studentId of
                   Threw e \<Rightarrow> Inl (e, st3)
                 | Returned docs \<Rightarrow>
                     (let history = map (\<lambda>(k, d). withKey ''id'' k d) docs
                      in Inr (if isMounted_att st3 then st3\<lparr>attendanceHistory := history\<rparr> else st3))))"

text \<open>
  \<open>fetchStudentDataAndAttendance\<close>.  \<open>key\<close> is the constant
  \<open>CURRENTLY_LOGGED_IN_STUDENT_ID\<close> of \<open>@/lib/constants\<close>.
\<close>

definition fetchStudentDataAndAttendance ::
  "string \<Rightarrow> storage \<Rightarrow> firestore \<Rightarrow> (nat \<Rightarrow> bool) \<Rightarrow> attendance_page \<Rightarrow> attendance_page" where
  "fetchStudentDataAndAttendance key ls db mountedAfter st =
     (if \<not> isMounted_att st then st
      else
        (let st1 = st\<lparr>isLoading_att := True, error_att := None\<rparr>;
             studentId = ls key
         in if \<not> truthy studentId then
              (if isMounted_att st1
               then st1\<lparr>error_att := Some ''Student not identified. Please log in to view attendance.'',
                        isLoading_att := False\<rparr>
               else st1)
            else
              (let st2 =
                     (case tryBody_att db mountedAfter (the studentId) st1 of
                        Inl (e, s) \<Rightarrow>
                          (if isMounted_att s
                           then s\<lparr>error_att :=
                                    Some (''Failed to load data: ''
                                          @ (case thrown_message e of None \<Rightarrow> ''undefined'' | Some m \<Rightarrow> m))\<rparr>
                           else s)
                      | Inr s \<Rightarrow> s)
               in if isMounted_att st2 then st2\<lparr>isLoading_att := False\<rparr> else st2)))"

definition attendanceEffect ::
  "string \<Rightarrow> storage \<Rightarrow> firestore \<Rightarrow> (nat \<Rightarrow> bool) \<Rightarrow> attendance_page \<Rightarrow> attendance_page" where
  "attendanceEffect key ls db mountedAfter st =
     fetchStudentDataAndAttendance key ls db mountedAfter (st\<lparr>isMounted_att := True\<rparr>)"

text \<open>
  The component has four \<open>return\<close> statements (lines 116-219).  \<open>ErrorCard e login\<close>
  is the error card, with whether its "Go to Login" link is there; the "Student Not
  Found" card always has the link.  \<open>HistoryReached\<close> says that none of the three early
  returns is taken, so that the component goes on to evaluate the header and history
  table of lines 154-218 (not given here; formatting a row can throw).
\<close>

datatype attendance_view =
    LoadingRecords
  | ErrorCard string bool
  | StudentNotFoundCard
  | HistoryReached

definition renderAttendancePage :: "attendance_page \<Rightarrow> attendance_view" where
  "renderAttendancePage st =
     (if isLoading_att st then LoadingRecords
      else if truthy (error_att st)
      then ErrorCard (the (error_att st)) (str_includes (the (error_att st)) ''Please log in'')
      else if loggedInStudent st = None then StudentNotFoundCard
      else HistoryReached)"

section \<open>Login forms (AdminLoginForm, StudentLoginForm)\<close>

record auth_user =
  user_id :: string
  user_email :: "string option"
  metadata_full_name :: "string option"

datatype session = Session string

text \<open>\<open>signInWithPassword\<close> resolves to \<open>{ data: { user, session }, error }\<close> or
  rejects.\<close>

datatype sign_in = SignIn "auth_user option" "session option" "backend_error option"
  | SignInRejected thrown

record student_row =
  row_full_name :: "string option"
  row_auth_user_id :: string

record auth_backend =
  signInWithPassword :: "string \<Rightarrow> string \<Rightarrow> sign_in"
  studentProfileReply :: "string \<Rightarrow> student_row reply"

record form_values =
  form_email :: string
  form_password :: string

text \<open>
  What a submit handler can change: the form's \<open>loginError\<close>, the local storage, the
  calls of \<open>router.push\<close>, the toasts (title and description), the number of calls of
  \<open>supabase.auth.signOut()\<close>, and the profile look-ups sent.
\<close>

record login_form =
  loginError :: "string option"
  localStorage :: storage
  navigated :: "string list"
  toasts :: "(string \<times> string) list"
  signOuts :: nat
  lookups :: "string list"

definition signOut :: "login_form \<Rightarrow> login_form" where
  "signOut st = st\<lparr>signOuts := Suc (signOuts st)\<rparr>"

text \<open>The branch \<open>if (error)\<close> that both forms share up to the wording of the second
  message.\<close>

definition authErrorText :: "string \<Rightarrow> backend_error \<Rightarrow> string" where
  "authErrorText unconfirmed authError =
     (let lowerCaseErrorMessage = toLowerCase (err_message authError) in
      if str_includes lowerCaseErrorMessage ''invalid login credentials''
      then ''Invalid email or password. Please check your credentials and try again.''
      else if str_includes lowerCaseErrorMessage ''email not confirmed''
      then unconfirmed
      else ''An unexpected error occurred: '' @ err_message authError)"

definition failedToFetch :: "thrown \<Rightarrow> bool" where
  "failedToFetch e =
     (truthy (thrown_message e)
      \<and> str_includes (toLowerCase (the (thrown_message e))) ''failed to fetch'')"

definition connectText :: string where
  "connectText = ''Could not connect to the server. Please check your internet connection and ensure the Supabase URL in your .env file is correct.''"

text \<open>What the form shows above its fields: \<open>{loginError && <Alert> ... {loginError}
  </Alert>}\<close>, the alert with the text when \<open>loginError\<close> is a non-empty string and
  nothing otherwise.\<close>

definition loginAlert :: "login_form \<Rightarrow> string option" where
  "loginAlert st = (if truthy (loginError st) then loginError st else None)"

text \<open>
  \<open>AdminLoginForm.onSubmit\<close>.  \<open>key\<close> is the constant \<open>ADMIN_LOGGED_IN_KEY\<close> of
  \<open>@/lib/constants\<close>.  \<open>localStorage.setItem\<close> either stores the value or throws (a
  full or disabled storage); \<open>setItemThrows k v ls\<close> is what it throws, \<open>None\<close> when it
  stores.  The call is inside the \<open>try\<close>, so a throw goes to the \<open>catch\<close> block.
\<close>

definition adminCatch :: "thrown \<Rightarrow> login_form \<Rightarrow> login_form" where
  "adminCatch e st =
     (signOut st)\<lparr>loginError :=
        Some (if failedToFetch e then connectText
              else ''An unexpected error occurred. Please try again.'')\<rparr>"

definition AdminLoginForm_onSubmit ::
  "string \<Rightarrow> (string \<Rightarrow> string \<Rightarrow> storage \<Rightarrow> thrown option) \<Rightarrow> auth_backend \<Rightarrow> form_values
   \<Rightarrow> login_form \<Rightarrow> login_form" where
  "AdminLoginForm_onSubmit key setItemThrows supabase values st =
     (let st0 = st\<lparr>loginError := None\<rparr>;
          processedEmail = toLowerCase (form_email values)
      in case signInWithPassword supabase processedEmail (form_password values) of
           SignInRejected e \<Rightarrow> adminCatch e st0
         | SignIn user sess (Some err) \<Rightarrow>
             (signOut st0)\<lparr>loginError :=
                Some (authErrorText
                  ''This admin account's email has not been confirmed. Please check your inbox for a confirmation link.''
                  err)\<rparr>
         | SignIn user sess None \<Rightarrow>
             (if user \<noteq> None \<and> sess \<noteq> None then
                (case setItemThrows key ''true'' (localStorage st0) of
                   Some e \<Rightarrow> adminCatch e st0
                 | None \<Rightarrow>
                     (let displayName = orElse (metadata_full_name (the user)) ''Admin'' in
                      st0\<lparr>localStorage := (localStorage st0)(key \<mapsto> ''true''),
                          toasts := toasts st0 @
                            [(''Login Successful'',
                              ''Welcome back, '' @ displayName @ ''! Redirecting to dashboard...'')],
                          navigated := navigated st0 @ [''/admin/dashboard'']\<rparr>))
              else
                (signOut st0)\<lparr>loginError := Some ''Could not log in. User or session data missing.''\<rparr>))"

text \<open>\<open>StudentLoginForm.onSubmit\<close>.\<close>

definition studentCatch :: "thrown \<Rightarrow> login_form \<Rightarrow> login_form" where
  "studentCatch e st =
     (signOut st)\<lparr>loginError :=
        Some (if failedToFetch e then connectText
              else ''An unexpected error occurred: ''
                   @ orElse (thrown_message e) ''Unknown error'' @ ''.'')\<rparr>"

definition StudentLoginForm_onSubmit ::
  "auth_backend \<Rightarrow> form_values \<Rightarrow> login_form \<Rightarrow> login_form" where
  "StudentLoginForm_onSubmit supabase values st =
     (let st0 = st\<lparr>loginError := None\<rparr>;
          processedEmail = toLowerCase (form_email values)
      in case signInWithPassword supabase processedEmail (form_password values) of
           SignInRejected e \<Rightarrow> studentCatch e st0
         | SignIn user sess (Some authError) \<Rightarrow>
             (signOut st0)\<lparr>loginError :=
                Some (authErrorText
                  ''Your email has not been confirmed. Please check your inbox for a confirmation link.''
                  authError)\<rparr>
         | SignIn user sess None \<Rightarrow>
             (if user \<noteq> None \<and> sess \<noteq> None then
                (let st1 = st0\<lparr>lookups := lookups st0 @ [user_id (the user)]\<rparr>
                 in case studentProfileReply supabase (user_id (the user)) of
                      Rejected e \<Rightarrow> studentCatch e st1
                    | Resolved studentProfile profileError \<Rightarrow>
                        if profileError \<noteq> None \<and> err_code (the profileError) \<noteq> ''PGRST116'' then
                          (signOut st1)\<lparr>loginError :=
                             Some ''Could not verify student profile after login. Please contact admin.''\<rparr>
                        else if studentProfile = None then
                          (signOut st1)\<lparr>loginError :=
                             Some ''No student profile associated with this login account. Please contact admin.''\<rparr>
                        else
                          st1\<lparr>toasts := toasts st1 @
                                [(''Login Successful'',
                                  ''Welcome back, ''
                                  @ orElse (row_full_name (the studentProfile))
                                      (case user_email (the user) of None \<Rightarrow> ''undefined'' | Some m \<Rightarrow> m)
                                  @ ''! Redirecting to your dashboard...'')],
                              navigated := navigated st1 @ [''/student/dashboard'']\<rparr>)
              else
                (signOut st0)\<lparr>loginError := Some ''Could not log in. User or session data missing.''\<rparr>))"

section \<open>Vocabulary of the properties and sample data\<close>

text \<open>A backend call failed: it rejected, or it resolved with an \<open>error\<close>.\<close>

definition failed :: "'a reply \<Rightarrow> bool" where
  "failed r = (case r of Rejected e \<Rightarrow> True | Resolved d e \<Rightarrow> e \<noteq> None)"

text \<open>What a failed call throws into the \<open>catch\<close> block, and the list a call that
  did not fail hands over (\<open>data || []\<close>).\<close>

definition raised :: "'a reply \<Rightarrow> thrown option" where
  "raised r =
     (case r of
        Rejected e \<Rightarrow> Some e
      | Resolved d (Some e) \<Rightarrow> Some (throw_error e)
      | Resolved d None \<Rightarrow> None)"

definition listOf :: "'a list reply \<Rightarrow> 'a list" where
  "listOf r = (case r of Resolved (Some xs) e \<Rightarrow> xs | _ \<Rightarrow> [])"

text \<open>The profile query failed, or the students query that follows a profile with
  assigned classes did.\<close>

definition rosterFailed :: "teacher_backend \<Rightarrow> string \<Rightarrow> bool" where
  "rosterFailed be u =
     (case profileReply be u of
        Rejected e \<Rightarrow> True
      | Resolved d (Some e) \<Rightarrow> True
      | Resolved None None \<Rightarrow> False
      | Resolved (Some p) None \<Rightarrow>
          nonEmptyClasses p \<and> failed (studentsReply be (the (assigned_classes p))))"

text \<open>The text that line 112 sets when the profile query returns no row, and the text
  the \<open>catch\<close> block reads from what was thrown.\<close>

definition notFoundText :: string where
  "notFoundText = ''Your teacher profile could not be found. Please contact an administrator.''"

definition textOf :: "thrown \<Rightarrow> string" where
  "textOf e = orElse (thrown_message e) ''An unknown error occurred''"

text \<open>An answer to the announcements query that does not reach the profile/students
  error state: it did not fail, or it failed with a text containing "announcements".\<close>

definition quiet :: "announcement list reply \<Rightarrow> bool" where
  "quiet r =
     (case raised r of
        None \<Rightarrow> True
      | Some e \<Rightarrow>
          str_includes (textOf e) ''announcements'')"

text \<open>The queries a load sent: what it appended to \<open>issued\<close>.\<close>

definition sentBy :: "teacher_page \<Rightarrow> teacher_page \<Rightarrow> query list" where
  "sentBy before after = drop (length (issued before)) (issued after)"

definition teacher_of :: "string list \<Rightarrow> teacher_profile" where
  "teacher_of cs =
     \<lparr>teacher_id = ''1'', auth_user_id = ''t1'', full_name = ''Ama Mensah'',
      email = ''ama@example.com'', subjects_taught = ''Mathematics'',
      contact_number = ''0200000000'', assigned_classes = Some cs\<rparr>"

definition student_5A :: student where
  "student_5A =
     \<lparr>student_id_display = ''S001'', student_full_name = ''Kofi Boateng'',
      date_of_birth = ''2014-01-01'', grade_level = ''5A'', guardian_name = ''Yaw Boateng'',
      guardian_contact = ''0240000000'', contact_email = None\<rparr>"

definition announcement_of :: "string \<Rightarrow> announcement" where
  "announcement_of i =
     \<lparr>ann_id = i, title = ''Notice'', ann_message = ''Welcome'', target_audience = Teachers,
      author_name = None, created_at = ''2025-01-01T00:00:00Z''\<rparr>"

definition six_announcements :: "announcement list" where
  "six_announcements = map announcement_of [''a1'', ''a2'', ''a3'', ''a4'', ''a5'', ''a6'']"

definition backend_error_of :: "string \<Rightarrow> backend_error" where
  "backend_error_of m = \<lparr>err_message = m, err_code = ''42501''\<rparr>"

text \<open>Backends: one that answers every query, one whose teacher lists a class twice,
  and three in which one of the queries fails.\<close>

definition good_backend :: "string list \<Rightarrow> teacher_backend" where
  "good_backend cs =
     \<lparr>profileReply = (\<lambda>u. Resolved (Some (teacher_of cs)) None),
      studentsReply = (\<lambda>c. Resolved (Some [student_5A]) None),
      announcementsReply = Resolved (Some six_announcements) None\<rparr>"

definition profile_down :: teacher_backend where
  "profile_down =
     (good_backend [''5A'', ''5B''])
       \<lparr>profileReply := (\<lambda>u. Resolved None (Some (backend_error_of ''permission denied for table teachers'')))\<rparr>"

definition students_down :: teacher_backend where
  "students_down =
     (good_backend [''5A'', ''5B''])
       \<lparr>studentsReply := (\<lambda>c. Resolved None (Some (backend_error_of ''permission denied for table students'')))\<rparr>"

definition announcements_down :: teacher_backend where
  "announcements_down =
     (good_backend [''5A'', ''5B''])
       \<lparr>announcementsReply := Resolved None (Some (backend_error_of ''permission denied for table school_announcements''))\<rparr>"

definition always :: "nat \<Rightarrow> bool" where
  "always n = True"

text \<open>A date library that formats every timestamp but the text "not a date", and an
  announcement with that text as \<open>created_at\<close>.\<close>

definition sample_relativeTime :: "string \<Rightarrow> string option" where
  "sample_relativeTime s = (if s = ''not a date'' then None else Some ''2 days ago'')"

definition undated_announcement :: announcement where
  "undated_announcement = (announcement_of ''a0'')\<lparr>created_at := ''not a date''\<rparr>"

text \<open>A backend that returns seven announcements, the first with that timestamp.\<close>

definition undated_backend :: teacher_backend where
  "undated_backend =
     (good_backend [''5A'', ''5B''])
       \<lparr>announcementsReply := Resolved (Some (undated_announcement # six_announcements)) None\<rparr>"

text \<open>A storage that takes every write, and one that is full.\<close>

definition storage_ok :: "string \<Rightarrow> string \<Rightarrow> storage \<Rightarrow> thrown option" where
  "storage_ok k v ls = None"

definition storage_full :: "string \<Rightarrow> string \<Rightarrow> storage \<Rightarrow> thrown option" where
  "storage_full k v ls = Some (Thrown (Some ''The quota has been exceeded.''))"

text \<open>The two conditions of the student login: the sign-in resolved without error with a
  user and a session, and the profile look-up for that user returned a row (with no error
  other than the no-rows code).\<close>

definition authSucceeded :: "auth_backend \<Rightarrow> form_values \<Rightarrow> bool" where
  "authSucceeded supabase values =
     (case signInWithPassword supabase (toLowerCase (form_email values)) (form_password values) of
        SignIn (Some u) (Some s) None \<Rightarrow> True
      | _ \<Rightarrow> False)"

definition linkedProfileFound :: "auth_backend \<Rightarrow> form_values \<Rightarrow> bool" where
  "linkedProfileFound supabase values =
     (case signInWithPassword supabase (toLowerCase (form_email values)) (form_password values) of
        SignIn (Some u) s e \<Rightarrow>
          (case studentProfileReply supabase (user_id u) of
             Resolved (Some row) None \<Rightarrow> True
           | Resolved (Some row) (Some perr) \<Rightarrow> err_code perr = ''PGRST116''
           | _ \<Rightarrow> False)
      | _ \<Rightarrow> False)"

definition sample_user :: auth_user where
  "sample_user =
     \<lparr>user_id = ''a1'', user_email = Some ''kofi@example.com'', metadata_full_name = None\<rparr>"

definition sample_values :: form_values where
  "sample_values = \<lparr>form_email = ''Kofi@Example.com'', form_password = ''secret''\<rparr>"

text \<open>Auth backends: one that signs the user in and finds a student row, one that signs
  in and finds no row, one that rejects the password.\<close>

definition provisioned_auth :: auth_backend where
  "provisioned_auth =
     \<lparr>signInWithPassword = (\<lambda>e p. SignIn (Some sample_user) (Some (Session ''token'')) None),
      studentProfileReply =
        (\<lambda>i. Resolved (Some \<lparr>row_full_name = Some ''Kofi Boateng'', row_auth_user_id = i\<rparr>) None)\<rparr>"

definition unprovisioned_auth :: auth_backend where
  "unprovisioned_auth =
     provisioned_auth
       \<lparr>studentProfileReply :=
          (\<lambda>i. Resolved None (Some \<lparr>err_message = ''no rows returned'', err_code = ''PGRST116''\<rparr>))\<rparr>"

definition wrong_password_auth :: auth_backend where
  "wrong_password_auth =
     provisioned_auth
       \<lparr>signInWithPassword :=
          (\<lambda>e p. SignIn None None
                   (Some \<lparr>err_message = ''Invalid login credentials'', err_code = ''400''\<rparr>))\<rparr>"

definition login_form_init :: login_form where
  "login_form_init =
     \<lparr>loginError = None, localStorage = Map.empty, navigated = [], toasts = [],
      signOuts = 0, lookups = []\<rparr>"

definition empty_firestore :: firestore where
  "empty_firestore = \<lparr>getDoc = (\<lambda>c k. Returned None), getDocs = (\<lambda>k. Returned [])\<rparr>"

section \<open>Properties of the access rules\<close>

text \<open>
  C1. In rule set A, \<open>isAdmin()\<close> holds exactly for a request that is authenticated and
  whose token carries the claim \<open>isAdmin\<close> with the boolean value true.  A request
  without the claim, with the claim false, or with the claim the string "true" does not
  satisfy it, and neither does an unauthenticated one.
\<close>

theorem isAdmin_strict:
  "(isAdmin req \<longleftrightarrow> (\<exists>a. auth req = Some a \<and> token a ''isAdmin'' = Some (VBool True)))
   \<and> (auth req = None \<longrightarrow> \<not> isAdmin req)
   \<and> (\<forall>a. auth req = Some a \<longrightarrow>
          (token a ''isAdmin'' = None
           \<or> token a ''isAdmin'' = Some (VBool False)
           \<or> token a ''isAdmin'' = Some (VString ''true'')) \<longrightarrow> \<not> isAdmin req)"
  by (auto simp: isAdmin_def split: option.splits)

theorem isAdmin_strict_witness:
  "isAdmin \<lparr>auth = Some admin_caller, resource_data = Map.empty\<rparr>
   \<and> \<not> isAdmin \<lparr>auth = Some string_claim_caller, resource_data = Map.empty\<rparr>
   \<and> \<not> isAdmin \<lparr>auth = Some plain_caller, resource_data = Map.empty\<rparr>
   \<and> \<not> isAdmin \<lparr>auth = None, resource_data = Map.empty\<rparr>"
  using isAdmin_strict [of "\<lparr>auth = Some admin_caller, resource_data = Map.empty\<rparr>"]
    isAdmin_strict [of "\<lparr>auth = Some string_claim_caller, resource_data = Map.empty\<rparr>"]
    isAdmin_strict [of "\<lparr>auth = Some plain_caller, resource_data = Map.empty\<rparr>"]
    isAdmin_strict [of "\<lparr>auth = None, resource_data = Map.empty\<rparr>"]
  by (simp add: admin_caller_def string_claim_caller_def plain_caller_def)

text \<open>
  C2, as stated, covers both rule sets.  Under rule set B a signed-in caller creates a
  student document whose \<open>studentId\<close> field (S002) differs from the document key (S001).
\<close>

theorem students_create_key_counterexample:
  "students_allow_create RulesetB mismatched_create ''S001''
   \<and> resource_data mismatched_create ''studentId'' \<noteq> Some (VString ''S001'')"
  by (simp add: students_allow_create_B_def isAdmin_B_def mismatched_create_def)

text \<open>
  C2, amended.  Under rule set A, for every request (whatever the caller: admin, teacher
  or unauthenticated) and every document key, a create on students whose submitted
  \<open>studentId\<close> is not exactly the key is rejected: every allowed create has
  \<open>studentId\<close> equal to the key, and comes from a caller that satisfies \<open>isAdmin()\<close>.
  Rule set B allows a create on students exactly when the caller is authenticated,
  without looking at \<open>studentId\<close>.
\<close>

theorem students_create_key_A:
  "(resource_data req ''studentId'' \<noteq> Some (VString k) \<longrightarrow> \<not> students_allow_create RulesetA req k)
   \<and> (students_allow_create RulesetA req k \<longrightarrow>
        resource_data req ''studentId'' = Some (VString k) \<and> isAdmin req)
   \<and> (students_allow_create RulesetB req k \<longleftrightarrow> auth req \<noteq> None)"
  by (simp add: students_allow_create_A_def students_allow_create_B_def isAdmin_B_def)

theorem students_create_key_A_witness:
  "students_allow_create RulesetA matching_create ''S001''
   \<and> resource_data matching_create ''studentId'' = Some (VString ''S001'')
   \<and> isAdmin matching_create
   \<and> resource_data matching_create ''studentId'' \<noteq> Some (VString ''S002'')
   \<and> \<not> students_allow_create RulesetA matching_create ''S002''"
  using students_create_key_A [of matching_create "''S001''"]
    students_create_key_A [of matching_create "''S002''"]
  by (simp add: students_allow_create_A_def isAdmin_def matching_create_def admin_caller_def)

section \<open>Lemmas on strings and on the steps of the dashboard load\<close>

lemma startsWith_iff: "startsWith s p \<longleftrightarrow> (\<exists>b. s = p @ b)"
  by (induction s p rule: startsWith.induct) auto

lemma str_includes_iff: "str_includes s p \<longleftrightarrow> (\<exists>a b. s = a @ p @ b)"
proof (induction s)
  case Nil
  then show ?case by auto
next
  case (Cons d s)
  show ?case
  proof
    assume "str_includes (d # s) p"
    then consider "startsWith (d # s) p" | "str_includes s p" by auto
    then show "\<exists>a b. d # s = a @ p @ b"
    proof cases
      case 1
      then obtain b where "d # s = p @ b" by (auto simp: startsWith_iff)
      then have "d # s = [] @ p @ b" by simp
      then show ?thesis by blast
    next
      case 2
      then obtain a b where "s = a @ p @ b" using Cons.IH by blast
      then have "d # s = (d # a) @ p @ b" by simp
      then show ?thesis by blast
    qed
  next
    assume "\<exists>a b. d # s = a @ p @ b"
    then obtain a b where ab: "d # s = a @ p @ b" by blast
    show "str_includes (d # s) p"
    proof (cases a)
      case Nil
      with ab have "startsWith (d # s) p" by (auto simp: startsWith_iff)
      then show ?thesis by simp
    next
      case (Cons x a')
      with ab have "s = a' @ p @ b" by simp
      then have "str_includes s p" using Cons.IH by blast
      then show ?thesis by simp
    qed
  qed
qed

lemmas load_defs = teacherDashboardEffect_def loadDashboardData_def tryBody_def profileStep_def rosterStep_def
  announcementsStep_def tryCatch_def catchBlock_def finallyBlock_def await_def throw_error_def
  orElse_def

lemmas sample_defs = good_backend_def profile_down_def students_down_def announcements_down_def
  teacher_of_def student_5A_def six_announcements_def announcement_of_def backend_error_of_def
  always_def teacher_page_init_def

lemma own_groupByClass:
  "map_of (own (groupByClass studs cs m)) c =
     (if c \<in> set cs \<and> c \<noteq> ''__proto__''
      then Some (filter (\<lambda>s. grade_level s = c) studs) else map_of (own m) c)"
  by (induction cs arbitrary: m) (auto simp: assignProp_def update_conv')

lemma keys_groupByClass:
  "set (map fst (own (groupByClass studs cs m))) = (set cs - {''__proto__''}) \<union> set (map fst (own m))"
  by (induction cs arbitrary: m) (auto simp: assignProp_def dom_update)

lemma distinct_groupByClass:
  "distinct (map fst (own m)) \<Longrightarrow> distinct (map fst (own (groupByClass studs cs m)))"
  by (induction cs arbitrary: m) (auto simp: assignProp_def distinct_update)

lemma proto_groupByClass:
  "proto (groupByClass studs cs m) =
     (if ''__proto__'' \<in> set cs
      then Some (filter (\<lambda>s. grade_level s = ''__proto__'') studs) else proto m)"
  by (induction cs arbitrary: m) (auto simp: assignProp_def)

lemma length_groupByClass:
  "length (own (groupByClass studs cs emptyObject)) = card (set cs - {''__proto__''})"
proof -
  have "length (own (groupByClass studs cs emptyObject))
        = length (map fst (own (groupByClass studs cs emptyObject)))" by simp
  also have "\<dots> = card (set (map fst (own (groupByClass studs cs emptyObject))))"
    using distinct_card [OF distinct_groupByClass [of emptyObject studs cs]]
    by (simp add: emptyObject_def)
  also have "\<dots> = card (set cs - {''__proto__''})"
    by (simp only: keys_groupByClass) (simp add: emptyObject_def)
  finally show ?thesis .
qed

lemma catchBlock_frame:
  "teacherProfile (catchBlock e s) = teacherProfile s"
  "studentsByClass (catchBlock e s) = studentsByClass s"
  "issued (catchBlock e s) = issued s"
  "pushed (catchBlock e s) = pushed s"
  "isMounted (catchBlock e s) = isMounted s"
  "announcements (catchBlock e s) = announcements s"
  "isLoading (catchBlock e s) = isLoading s"
  by (simp_all add: catchBlock_def Let_def)

lemma finallyBlock_frame:
  "teacherProfile (finallyBlock s) = teacherProfile s"
  "studentsByClass (finallyBlock s) = studentsByClass s"
  "issued (finallyBlock s) = issued s"
  "pushed (finallyBlock s) = pushed s"
  "isMounted (finallyBlock s) = isMounted s"
  "announcements (finallyBlock s) = announcements s"
  "error (finallyBlock s) = error s"
  "announcementsError (finallyBlock s) = announcementsError s"
  "isLoading (finallyBlock s) = isLoading s"
  by (simp_all add: finallyBlock_def)

lemma announcementsStep_Inl:
  "announcementsStep m be s = Inl (e, s') \<Longrightarrow>
     teacherProfile s' = teacherProfile s \<and> studentsByClass s' = studentsByClass s
     \<and> pushed s' = pushed s \<and> issued s' = issued s @ [QAnnouncements]
     \<and> error s' = error s \<and> announcements s' = announcements s"
  by (auto simp: announcementsStep_def await_def Let_def split: reply.splits option.splits)

lemma announcementsStep_Inr:
  "announcementsStep m be s = Inr s' \<Longrightarrow>
     teacherProfile s' = teacherProfile s \<and> studentsByClass s' = studentsByClass s
     \<and> pushed s' = pushed s \<and> issued s' = issued s @ [QAnnouncements]
     \<and> error s' = error s \<and> announcementsError s' = None"
  by (auto simp: announcementsStep_def await_def Let_def split: reply.splits option.splits if_splits)

lemma tryCatch_announcementsStep:
  "teacherProfile (tryCatch (announcementsStep m be s)) = teacherProfile s
   \<and> studentsByClass (tryCatch (announcementsStep m be s)) = studentsByClass s
   \<and> pushed (tryCatch (announcementsStep m be s)) = pushed s
   \<and> issued (tryCatch (announcementsStep m be s)) = issued s @ [QAnnouncements]"
proof (cases "announcementsStep m be s")
  case (Inl t)
  obtain e s' where t: "t = (e, s')" by (cases t)
  from announcementsStep_Inl [of m be s e s'] Inl t
  show ?thesis by (simp add: tryCatch_def catchBlock_frame)
next
  case (Inr s')
  from announcementsStep_Inr [of m be s s'] Inr
  show ?thesis by (simp add: tryCatch_def)
qed

lemma rosterStep_grouped:
  assumes "assigned_classes p = Some cs" "cs \<noteq> []" "studentsReply be cs = Resolved d None"
  shows "rosterStep m be (Some p) st =
     Inr (let st1 = (if isMounted st then st\<lparr>teacherProfile := Some p\<rparr> else st);
              st2 = await m (QStudents cs) st1
          in if isMounted st2
             then st2\<lparr>studentsByClass := groupByClass (case d of None \<Rightarrow> [] | Some xs \<Rightarrow> xs) cs emptyObject\<rparr>
             else st2)"
  using assms by (simp add: rosterStep_def Let_def)

lemma rosterStep_no_classes:
  assumes "assigned_classes p = None \<or> assigned_classes p = Some []"
  shows "rosterStep m be (Some p) st =
     Inr (let st1 = (if isMounted st then st\<lparr>teacherProfile := Some p\<rparr> else st)
          in if isMounted st1 then st1\<lparr>studentsByClass := emptyObject\<rparr> else st1)"
  using assms by (auto simp add: rosterStep_def Let_def)

lemma effect_unfold:
  assumes "ls key = Some u" "u \<noteq> []"
  shows "teacherDashboardEffect key ls (Some be) m st =
     (let s2 = finallyBlock
                 (tryCatch (tryBody m be u (st\<lparr>isMounted := True, supabaseRef := Some be, isLoading := True, error := None\<rparr>)))
      in if isMounted s2 then s2\<lparr>isLoading := False\<rparr> else s2)"
  using assms by (simp add: teacherDashboardEffect_def loadDashboardData_def Let_def)

lemma effect_roster:
  assumes "\<forall>n. mountedAfter n" "ls key = Some u" "u \<noteq> []"
    "profileReply be u = Resolved (Some p) None"
    "assigned_classes p = Some cs" "cs \<noteq> []" "studentsReply be cs = Resolved d None"
  shows "studentsByClass (teacherDashboardEffect key ls (Some be) mountedAfter st)
         = groupByClass (case d of None \<Rightarrow> [] | Some xs \<Rightarrow> xs) cs emptyObject"
    "teacherProfile (teacherDashboardEffect key ls (Some be) mountedAfter st) = Some p"
  using assms
  by (simp_all add: effect_unfold tryBody_def profileStep_def rosterStep_grouped
      await_def Let_def finallyBlock_frame tryCatch_announcementsStep)

lemma effect_no_classes:
  assumes "\<forall>n. mountedAfter n" "ls key = Some u" "u \<noteq> []"
    "profileReply be u = Resolved (Some p) None"
    "assigned_classes p = None \<or> assigned_classes p = Some []"
  shows "studentsByClass (teacherDashboardEffect key ls (Some be) mountedAfter st) = emptyObject"
    "teacherProfile (teacherDashboardEffect key ls (Some be) mountedAfter st) = Some p"
  using assms
  by (simp_all add: effect_unfold tryBody_def profileStep_def rosterStep_no_classes
      await_def Let_def finallyBlock_frame tryCatch_announcementsStep)

lemma failed_raised: "failed r \<longleftrightarrow> raised r \<noteq> None"
  by (simp add: failed_def raised_def split: reply.splits option.splits)

lemma profileStep_raised:
  assumes "raised (profileReply be u) = Some e"
  shows "profileStep m be u s = Inl (e, await m (QTeacherProfile u) s)"
  using assms by (auto simp: profileStep_def raised_def Let_def split: reply.splits option.splits)

lemma rosterStep_students_raised:
  assumes "assigned_classes p = Some cs" "cs \<noteq> []" "raised (studentsReply be cs) = Some e"
  shows "rosterStep m be (Some p) st =
     Inl (e, await m (QStudents cs) (if isMounted st then st\<lparr>teacherProfile := Some p\<rparr> else st))"
  using assms by (auto simp add: rosterStep_def Let_def raised_def split: reply.splits option.splits)

lemma rosterStep_listOf:
  assumes "assigned_classes p = Some cs" "cs \<noteq> []" "raised (studentsReply be cs) = None"
  shows "rosterStep m be (Some p) st =
     Inr (let st1 = (if isMounted st then st\<lparr>teacherProfile := Some p\<rparr> else st);
              st2 = await m (QStudents cs) st1
          in if isMounted st2
             then st2\<lparr>studentsByClass := groupByClass (listOf (studentsReply be cs)) cs emptyObject\<rparr>
             else st2)"
  using assms by (auto simp add: rosterStep_def Let_def raised_def listOf_def split: reply.splits option.splits)

lemma rosterStep_not_found:
  "rosterStep m be None st =
     Inr (if isMounted st
          then st\<lparr>error := Some ''Your teacher profile could not be found. Please contact an administrator.''\<rparr>
          else st)"
  by (simp add: rosterStep_def)

lemma profileStep_ok:
  assumes "profileReply be u = Resolved d None"
  shows "profileStep m be u s = rosterStep m be d (await m (QTeacherProfile u) s)"
  using assms by (simp add: profileStep_def Let_def)

lemma tryCatch_Inl: "tryCatch (Inl (e, s)) = catchBlock e s"
  by (simp add: tryCatch_def)

lemma sent_roster_failed:
  assumes "ls key = Some u" "u \<noteq> []" "rosterFailed be u"
  shows "QAnnouncements \<notin> set (sentBy st (teacherDashboardEffect key ls (Some be) m st))
         \<and> announcements (teacherDashboardEffect key ls (Some be) m st) = announcements st"
proof (cases "raised (profileReply be u)")
  case (Some e)
  then show ?thesis using assms(1,2)
    by (simp add: effect_unfold tryBody_def profileStep_raised tryCatch_Inl Let_def finallyBlock_frame
        catchBlock_frame await_def sentBy_def)
next
  case None
  then obtain d where d: "profileReply be u = Resolved d None"
    by (auto simp: raised_def split: reply.splits option.splits)
  with assms(3) obtain p where p: "d = Some p" "nonEmptyClasses p"
      "failed (studentsReply be (the (assigned_classes p)))"
    by (auto simp: rosterFailed_def split: option.splits)
  then obtain cs where cs: "assigned_classes p = Some cs" "cs \<noteq> []"
    by (auto simp: nonEmptyClasses_def split: option.splits)
  with p obtain e where e: "raised (studentsReply be cs) = Some e"
    by (auto simp: failed_raised)
  show ?thesis using assms(1,2) d p(1) cs e
    by (simp add: effect_unfold tryBody_def profileStep_ok rosterStep_students_raised tryCatch_Inl Let_def
        finallyBlock_frame catchBlock_frame await_def sentBy_def)
qed

lemma sent_roster_ok:
  assumes "ls key = Some u" "u \<noteq> []" "\<not> rosterFailed be u"
  shows "QAnnouncements \<in> set (sentBy st (teacherDashboardEffect key ls (Some be) m st))"
proof -
  from assms(3) obtain d where d: "profileReply be u = Resolved d None"
    by (auto simp: rosterFailed_def split: reply.splits option.splits)
  show ?thesis
  proof (cases d)
    case None
    then show ?thesis using assms(1,2) d
      by (simp add: effect_unfold tryBody_def profileStep_ok rosterStep_not_found Let_def
          finallyBlock_frame tryCatch_announcementsStep await_def sentBy_def)
  next
    case (Some p)
    show ?thesis
    proof (cases "nonEmptyClasses p")
      case True
      then obtain cs where cs: "assigned_classes p = Some cs" "cs \<noteq> []"
        by (auto simp: nonEmptyClasses_def split: option.splits)
      with assms(3) d Some True have "raised (studentsReply be cs) = None"
        by (auto simp: rosterFailed_def failed_raised)
      then show ?thesis using assms(1,2) d Some cs
        by (simp add: effect_unfold tryBody_def profileStep_ok rosterStep_listOf Let_def
            finallyBlock_frame tryCatch_announcementsStep await_def sentBy_def)
    next
      case False
      then have "assigned_classes p = None \<or> assigned_classes p = Some []"
        by (auto simp: nonEmptyClasses_def split: option.splits)
      then show ?thesis using assms(1,2) d Some
        by (simp add: effect_unfold tryBody_def profileStep_ok rosterStep_no_classes Let_def
            finallyBlock_frame tryCatch_announcementsStep await_def sentBy_def)
    qed
  qed
qed


lemma roster_of_tryBody:
  "teacherProfile (tryCatch (tryBody m be u s)) = teacherProfile (tryCatch (profileStep m be u s))
   \<and> studentsByClass (tryCatch (tryBody m be u s)) = studentsByClass (tryCatch (profileStep m be u s))"
proof (cases "profileStep m be u s")
  case (Inl t)
  then show ?thesis by (simp add: tryBody_def)
next
  case (Inr s2)
  then show ?thesis
    using tryCatch_announcementsStep [of m be s2] by (simp add: tryBody_def tryCatch_def)
qed

lemma rosterStep_ignores_announcements:
  "rosterStep m (be\<lparr>announcementsReply := r\<rparr>) d s = rosterStep m be d s"
  by (simp add: rosterStep_def Let_def cong: if_cong option.case_cong)

lemma profileStep_ignores_announcements:
  "profileStep m (be\<lparr>announcementsReply := r\<rparr>) u s = profileStep m be u s"
  by (simp add: profileStep_def rosterStep_ignores_announcements Let_def
      split: reply.splits option.splits)

lemma effect_falsy:
  assumes "\<not> truthy (ls key)"
  shows "teacherDashboardEffect key ls (Some be) m st =
           st\<lparr>isMounted := True, supabaseRef := Some be, isLoading := False,
              error := Some ''Not authenticated. Please login.'',
              pushed := pushed st @ [''/auth/teacher/login'']\<rparr>"
  using assms by (simp add: teacherDashboardEffect_def loadDashboardData_def Let_def)

lemma roster_independent:
  "teacherProfile (teacherDashboardEffect key ls (Some (be\<lparr>announcementsReply := r\<rparr>)) m st)
     = teacherProfile (teacherDashboardEffect key ls (Some be) m st)
   \<and> studentsByClass (teacherDashboardEffect key ls (Some (be\<lparr>announcementsReply := r\<rparr>)) m st)
     = studentsByClass (teacherDashboardEffect key ls (Some be) m st)"
proof (cases "truthy (ls key)")
  case False
  then show ?thesis by (simp add: effect_falsy)
next
  case True
  then obtain u where u: "ls key = Some u" "u \<noteq> []" by (cases "ls key") auto
  let ?s = "st\<lparr>isMounted := True, supabaseRef := Some be, isLoading := True, error := None\<rparr>"
  let ?s' = "st\<lparr>isMounted := True, supabaseRef := Some (be\<lparr>announcementsReply := r\<rparr>), isLoading := True, error := None\<rparr>"
  have same: "teacherProfile (tryCatch (profileStep m be u ?s')) = teacherProfile (tryCatch (profileStep m be u ?s))
      \<and> studentsByClass (tryCatch (profileStep m be u ?s')) = studentsByClass (tryCatch (profileStep m be u ?s))"
    by (simp add: profileStep_def rosterStep_def await_def tryCatch_def catchBlock_frame Let_def
        split: reply.splits option.splits)
  show ?thesis
    using u same roster_of_tryBody [of m be u ?s]
      roster_of_tryBody [of m "be\<lparr>announcementsReply := r\<rparr>" u ?s']
    by (simp add: effect_unfold Let_def finallyBlock_frame profileStep_ignores_announcements)
qed



lemma announcementsStep_raised:
  assumes "raised (announcementsReply be) = Some e"
  shows "announcementsStep m be s =
     Inl (e, await m QAnnouncements
               ((if isMounted s then s\<lparr>isLoadingAnnouncements := True\<rparr> else s)\<lparr>announcementsError := None\<rparr>))"
  using assms
  by (auto simp: announcementsStep_def raised_def Let_def split: reply.splits option.splits)

lemma announcementsStep_resolved:
  assumes "announcementsReply be = Resolved a None"
  shows "announcementsStep m be s =
     Inr (let s3 = await m QAnnouncements
                     ((if isMounted s then s\<lparr>isLoadingAnnouncements := True\<rparr> else s)\<lparr>announcementsError := None\<rparr>)
          in if isMounted s3
             then s3\<lparr>announcements := (case a of None \<Rightarrow> [] | Some xs \<Rightarrow> xs)\<rparr>
             else s3)"
  using assms by (simp add: announcementsStep_def Let_def)

lemma attendance_not_identified:
  assumes "ls key = None"
  shows "attendanceEffect key ls db m st =
           st\<lparr>isMounted_att := True, isLoading_att := False,
              error_att := Some ''Student not identified. Please log in to view attendance.''\<rparr>"
  using assms by (simp add: attendanceEffect_def fetchStudentDataAndAttendance_def Let_def)

section \<open>Properties of the teacher dashboard load\<close>

text \<open>
  C7, as stated, sends every text containing "students" to the profile/students error
  state.  A text containing both "announcements" and "students" goes to the
  announcements error state, and \<open>error\<close> stays empty.
\<close>

theorem catch_routing_counterexample:
  "str_includes ''could not load announcements for students'' ''students''
   \<and> isMounted teacher_page_init
   \<and> error (catchBlock (Thrown (Some ''could not load announcements for students'')) teacher_page_init) = None
   \<and> announcementsError (catchBlock (Thrown (Some ''could not load announcements for students'')) teacher_page_init)
       = Some ''Failed to load announcements: could not load announcements for students''"
  by (simp add: catchBlock_def orElse_def teacher_page_init_def)

text \<open>
  C7, amended.  In the \<open>catch\<close> block of a mounted component, a text containing
  "announcements" sets \<open>announcementsError\<close> and nothing else, so \<open>error\<close> is as
  before; a text that does not contain "announcements" and contains "profile" or
  "students" sets \<open>error\<close> (to a message that ends with "Failed to load dashboard
  data:" and the text) and nothing else, so \<open>announcementsError\<close> is as before.  When
  the component is unmounted the block changes nothing.
\<close>

theorem catch_routing:
  "(isMounted st \<and> str_includes (orElse (thrown_message e) ''An unknown error occurred'') ''announcements''
      \<longrightarrow> catchBlock e st
            = st\<lparr>announcementsError :=
                  Some (''Failed to load announcements: ''
                        @ orElse (thrown_message e) ''An unknown error occurred'')\<rparr>
          \<and> error (catchBlock e st) = error st)
   \<and> (isMounted st \<and> \<not> str_includes (orElse (thrown_message e) ''An unknown error occurred'') ''announcements''
        \<and> (str_includes (orElse (thrown_message e) ''An unknown error occurred'') ''profile''
            \<or> str_includes (orElse (thrown_message e) ''An unknown error occurred'') ''students'')
      \<longrightarrow> (\<exists>text. catchBlock e st = st\<lparr>error := Some text\<rparr>
                \<and> str_includes text (''Failed to load dashboard data: ''
                                      @ orElse (thrown_message e) ''An unknown error occurred''))
          \<and> announcementsError (catchBlock e st) = announcementsError st)
   \<and> (\<not> isMounted st \<longrightarrow> catchBlock e st = st)"
proof (intro conjI impI)
  let ?msg = "orElse (thrown_message e) ''An unknown error occurred''"
  assume a: "isMounted st \<and> \<not> str_includes ?msg ''announcements''
        \<and> (str_includes ?msg ''profile'' \<or> str_includes ?msg ''students'')"
  let ?text = "if truthy (error st)
               then the (error st) @ '' Failed to load dashboard data: '' @ ?msg
               else ''Failed to load dashboard data: '' @ ?msg"
  have c: "catchBlock e st = st\<lparr>error := Some ?text\<rparr>"
    using a by (simp add: catchBlock_def Let_def)
  have "?text = [] @ (''Failed to load dashboard data: '' @ ?msg) @ []
        \<or> ?text = (the (error st) @ '' '') @ (''Failed to load dashboard data: '' @ ?msg) @ []"
    by simp
  then have "str_includes ?text (''Failed to load dashboard data: '' @ ?msg)"
    unfolding str_includes_iff by blast
  with c show "\<exists>text. catchBlock e st = st\<lparr>error := Some text\<rparr>
                \<and> str_includes text (''Failed to load dashboard data: '' @ ?msg)"
    by blast
  from c show "announcementsError (catchBlock e st) = announcementsError st" by simp
qed (simp_all add: catchBlock_def Let_def)

text \<open>Witness for C7: one text of each kind, and an unmounted component.\<close>

theorem catch_routing_witness:
  "isMounted teacher_page_init
   \<and> str_includes ''permission denied for table school_announcements'' ''announcements''
   \<and> error (catchBlock (Thrown (Some ''permission denied for table school_announcements'')) teacher_page_init) = None
   \<and> \<not> str_includes ''permission denied for table students'' ''announcements''
   \<and> str_includes ''permission denied for table students'' ''students''
   \<and> announcementsError (catchBlock (Thrown (Some ''permission denied for table students'')) teacher_page_init) = None
   \<and> \<not> isMounted (teacher_page_init\<lparr>isMounted := False\<rparr>)
   \<and> catchBlock (Thrown None) (teacher_page_init\<lparr>isMounted := False\<rparr>) = teacher_page_init\<lparr>isMounted := False\<rparr>"
  using catch_routing [of teacher_page_init "Thrown (Some ''permission denied for table school_announcements'')"]
    catch_routing [of teacher_page_init "Thrown (Some ''permission denied for table students'')"]
    catch_routing [of "teacher_page_init\<lparr>isMounted := False\<rparr>" "Thrown None"]
  by (simp add: orElse_def teacher_page_init_def)


section \<open>Properties of the login forms and of the attendance page\<close>

text \<open>
  C10.  The student login handler leaves the local storage as it was on every path.  So
  if the student identifier key was absent before, it is absent afterwards, and the
  attendance page, loaded with the storage the handler leaves, reports "Student not
  identified" without reading from the backend.
\<close>

theorem student_login_writes_no_storage:
  "localStorage (StudentLoginForm_onSubmit supabase values st) = localStorage st
   \<and> (localStorage st key = None \<longrightarrow>
        error_att (attendanceEffect key (localStorage (StudentLoginForm_onSubmit supabase values st)) db m page)
          = Some ''Student not identified. Please log in to view attendance.''
        \<and> reads_att (attendanceEffect key (localStorage (StudentLoginForm_onSubmit supabase values st)) db m page)
          = reads_att page)"
proof -
  have f: "localStorage (StudentLoginForm_onSubmit supabase values st) = localStorage st"
    by (simp add: StudentLoginForm_onSubmit_def Let_def studentCatch_def signOut_def
        split: sign_in.splits option.splits reply.splits)
  show ?thesis unfolding f using f by (simp add: attendance_not_identified)
qed

text \<open>Witness for C10: a login that reaches the dashboard, then the attendance page.\<close>

theorem student_login_writes_no_storage_witness:
  "localStorage login_form_init ''studentId'' = None
   \<and> navigated (StudentLoginForm_onSubmit provisioned_auth sample_values login_form_init)
       = [''/student/dashboard'']
   \<and> error_att (attendanceEffect ''studentId''
        (localStorage (StudentLoginForm_onSubmit provisioned_auth sample_values login_form_init))
        empty_firestore always attendance_page_init)
       = Some ''Student not identified. Please log in to view attendance.''"
proof -
  have h: "localStorage login_form_init ''studentId'' = None" by (simp add: login_form_init_def)
  have n: "navigated (StudentLoginForm_onSubmit provisioned_auth sample_values login_form_init)
       = [''/student/dashboard'']"
    by (simp add: StudentLoginForm_onSubmit_def provisioned_auth_def login_form_init_def Let_def)
  from student_login_writes_no_storage [of provisioned_auth sample_values login_form_init
      "''studentId''" empty_firestore always attendance_page_init] h n
  show ?thesis by blast
qed

text \<open>
  C8.  With the student identifier absent from local storage, the attendance page sets
  the "not identified" error, asks for no navigation, reads nothing from the backend and
  renders the error card with its login link.  With the teacher identifier absent, the
  teacher dashboard sets the "Not authenticated" error and pushes the teacher login
  route, sending no query.
\<close>

theorem missing_identity_student_vs_teacher:
  "(ls studentKey = None \<longrightarrow>
      error_att (attendanceEffect studentKey ls db m page)
        = Some ''Student not identified. Please log in to view attendance.''
      \<and> pushed_att (attendanceEffect studentKey ls db m page) = pushed_att page
      \<and> reads_att (attendanceEffect studentKey ls db m page) = reads_att page
      \<and> renderAttendancePage (attendanceEffect studentKey ls db m page)
          = ErrorCard ''Student not identified. Please log in to view attendance.'' True)
   \<and> (ls teacherKey = None \<longrightarrow>
        error (teacherDashboardEffect teacherKey ls (Some be) m st) = Some ''Not authenticated. Please login.''
        \<and> pushed (teacherDashboardEffect teacherKey ls (Some be) m st) = pushed st @ [''/auth/teacher/login'']
        \<and> issued (teacherDashboardEffect teacherKey ls (Some be) m st) = issued st)"
  by (simp add: attendance_not_identified renderAttendancePage_def
      teacherDashboardEffect_def loadDashboardData_def Let_def)

text \<open>Witness for C8: an empty local storage on both pages.\<close>

theorem missing_identity_student_vs_teacher_witness:
  "Map.empty ''studentId'' = (None :: string option)
   \<and> renderAttendancePage (attendanceEffect ''studentId'' Map.empty empty_firestore always attendance_page_init)
       = ErrorCard ''Student not identified. Please log in to view attendance.'' True
   \<and> pushed_att (attendanceEffect ''studentId'' Map.empty empty_firestore always attendance_page_init) = []
   \<and> Map.empty ''teacherUid'' = (None :: string option)
   \<and> pushed (teacherDashboardEffect ''teacherUid'' Map.empty (Some (good_backend [])) always teacher_page_init)
       = [''/auth/teacher/login'']
   \<and> renderTeacherDashboard (teacherDashboardEffect ''teacherUid'' Map.empty (Some (good_backend [])) always teacher_page_init)
       = ProfileIssueCard ''Not authenticated. Please login.'' True False"
proof -
  have r: "renderTeacherDashboard (teacherDashboardEffect ''teacherUid'' Map.empty (Some (good_backend [])) always teacher_page_init)
       = ProfileIssueCard ''Not authenticated. Please login.'' True False"
    by (simp add: teacherDashboardEffect_def loadDashboardData_def Let_def teacher_page_init_def
        renderTeacherDashboard_def)
  from missing_identity_student_vs_teacher [of Map.empty "''studentId''" empty_firestore always
      attendance_page_init "''teacherUid''" "good_backend []" teacher_page_init] r
  show ?thesis by (simp add: attendance_page_init_def teacher_page_init_def)
qed

section \<open>Properties of the class mapping and of the announcements\<close>

lemma raised_None: "raised r = None \<Longrightarrow> \<exists>a. r = Resolved a None"
  by (auto simp: raised_def split: reply.splits option.splits)

lemma no_classes_error_resolved:
  assumes "\<forall>n. mountedAfter n" "ls key = Some u" "u \<noteq> []"
    "profileReply be u = Resolved (Some p) None"
    "assigned_classes p = None \<or> assigned_classes p = Some []"
    "raised (announcementsReply be) = None"
  shows "error (teacherDashboardEffect key ls (Some be) mountedAfter st) = None"
proof -
  from assms(6) obtain a where "announcementsReply be = Resolved a None"
    using raised_None by blast
  then show ?thesis using assms(1-5)
    by (simp add: effect_unfold tryBody_def profileStep_def rosterStep_no_classes
        announcementsStep_resolved tryCatch_def await_def Let_def finallyBlock_def)
qed

lemma no_classes_error_raised:
  assumes "\<forall>n. mountedAfter n" "ls key = Some u" "u \<noteq> []"
    "profileReply be u = Resolved (Some p) None"
    "assigned_classes p = None \<or> assigned_classes p = Some []"
    "raised (announcementsReply be) = Some e"
  shows "error (teacherDashboardEffect key ls (Some be) mountedAfter st) =
           (if str_includes (textOf e) ''announcements'' then None
            else if str_includes (textOf e) ''profile'' \<or> str_includes (textOf e) ''students''
            then Some (''Failed to load dashboard data: '' @ textOf e)
            else Some ''An unexpected error occurred.'')"
  using assms
  by (simp add: effect_unfold tryBody_def profileStep_def rosterStep_no_classes
      announcementsStep_raised tryCatch_Inl catchBlock_def textOf_def await_def Let_def finallyBlock_def)

text \<open>
  C4, as stated, promises as many keys as the profile has assigned classes.  A profile
  whose list names the class 5A twice (two entries) yields a mapping with the one key 5A,
  and a profile whose one class is named \<open>__proto__\<close> yields a mapping without keys.
\<close>

theorem class_mapping_keys_counterexample:
  "assigned_classes (teacher_of [''5A'', ''5A'']) = Some [''5A'', ''5A'']
   \<and> length [''5A'', ''5A''] = 2
   \<and> map fst (own (studentsByClass
        (teacherDashboardEffect ''teacherUid'' [''teacherUid'' \<mapsto> ''t1'']
           (Some (good_backend [''5A'', ''5A''])) always teacher_page_init))) = [''5A'']
   \<and> map fst (own (studentsByClass
        (teacherDashboardEffect ''teacherUid'' [''teacherUid'' \<mapsto> ''t1'']
           (Some (good_backend [''__proto__''])) always teacher_page_init))) = []"
  by (simp add: load_defs sample_defs assignProp_def emptyObject_def)

text \<open>
  C4, amended.  For a load that stays mounted, with a stored teacher identifier and a
  profile \<open>p\<close> returned: when \<open>p\<close> has assigned classes \<open>cs\<close> and the students query
  returns the list \<open>fetched\<close>, the keys of the mapping are exactly the distinct names of
  \<open>cs\<close> other than \<open>__proto__\<close> (so \<open>length cs\<close> keys when no name is repeated and none
  is \<open>__proto__\<close>), each of these classes has an entry, also when its list is empty, the
  entry of a class is the fetched students whose \<open>grade_level\<close> is that class name, and a
  student listed under a key has that key as \<open>grade_level\<close>; a class named \<open>__proto__\<close>
  gets no key, its students become the prototype of the mapping.  With no assigned
  classes the mapping is the empty object and the roster step sets no error: after the
  load \<open>error\<close> is empty when the announcements query does not fail or fails with a text
  containing "announcements", and holds the handler's message for any other failure of
  that query.
\<close>

theorem class_mapping_by_name:
  assumes "\<forall>n. mountedAfter n" and "ls key = Some u" and "u \<noteq> []"
    and "profileReply be u = Resolved (Some p) None"
  shows
    "(\<forall>cs d. assigned_classes p = Some cs \<and> cs \<noteq> [] \<and> studentsReply be cs = Resolved d None \<longrightarrow>
        (let m = studentsByClass (teacherDashboardEffect key ls (Some be) mountedAfter st);
             fetched = (case d of None \<Rightarrow> [] | Some xs \<Rightarrow> xs)
         in set (map fst (own m)) = set cs - {''__proto__''} \<and> distinct (map fst (own m))
            \<and> length (own m) = card (set cs - {''__proto__''})
            \<and> (distinct cs \<and> ''__proto__'' \<notin> set cs \<longrightarrow> length (own m) = length cs)
            \<and> (\<forall>c \<in> set cs. c \<noteq> ''__proto__'' \<longrightarrow>
                  map_of (own m) c = Some (filter (\<lambda>s. grade_level s = c) fetched))
            \<and> (\<forall>c xs s. map_of (own m) c = Some xs \<and> s \<in> set xs \<longrightarrow>
                  grade_level s = c \<and> s \<in> set fetched)
            \<and> proto m = (if ''__proto__'' \<in> set cs
                          then Some (filter (\<lambda>s. grade_level s = ''__proto__'') fetched)
                          else None)))
     \<and> (assigned_classes p = None \<or> assigned_classes p = Some [] \<longrightarrow>
          studentsByClass (teacherDashboardEffect key ls (Some be) mountedAfter st) = emptyObject
          \<and> (raised (announcementsReply be) = None \<longrightarrow>
                error (teacherDashboardEffect key ls (Some be) mountedAfter st) = None)
          \<and> (\<forall>e. raised (announcementsReply be) = Some e \<longrightarrow>
                error (teacherDashboardEffect key ls (Some be) mountedAfter st) =
                  (if str_includes (textOf e) ''announcements'' then None
                   else if str_includes (textOf e) ''profile'' \<or> str_includes (textOf e) ''students''
                   then Some (''Failed to load dashboard data: '' @ textOf e)
                   else Some ''An unexpected error occurred.'')))"
proof (intro conjI allI impI)
  fix cs d
  assume a: "assigned_classes p = Some cs \<and> cs \<noteq> [] \<and> studentsReply be cs = Resolved d None"
  let ?fetched = "case d of None \<Rightarrow> [] | Some xs \<Rightarrow> xs"
  let ?g = "groupByClass ?fetched cs emptyObject"
  have m: "studentsByClass (teacherDashboardEffect key ls (Some be) mountedAfter st) = ?g"
    using effect_roster(1) [of mountedAfter ls key u be p cs d st] assms a by blast
  have d: "distinct (map fst (own ?g))"
    by (rule distinct_groupByClass) (simp add: emptyObject_def)
  have k: "set (map fst (own ?g)) = set cs - {''__proto__''}"
    using keys_groupByClass [of ?fetched cs emptyObject] by (simp add: emptyObject_def)
  have l: "length (own ?g) = card (set cs - {''__proto__''})"
    by (rule length_groupByClass)
  have l': "distinct cs \<and> ''__proto__'' \<notin> set cs \<longrightarrow> length (own ?g) = length cs"
    using l distinct_card [of cs] by simp
  have f: "\<forall>c \<in> set cs. c \<noteq> ''__proto__'' \<longrightarrow>
             map_of (own ?g) c = Some (filter (\<lambda>s. grade_level s = c) ?fetched)"
    using own_groupByClass [of ?fetched cs emptyObject] by simp
  have g: "\<forall>c xs s. map_of (own ?g) c = Some xs \<and> s \<in> set xs
          \<longrightarrow> grade_level s = c \<and> s \<in> set ?fetched"
  proof (intro allI impI)
    fix c xs s
    assume h: "map_of (own ?g) c = Some xs \<and> s \<in> set xs"
    have "map_of (own emptyObject) c = None" by (simp add: emptyObject_def)
    with h have "xs = filter (\<lambda>s. grade_level s = c) ?fetched"
      using own_groupByClass [of ?fetched cs emptyObject c]
      by (cases "c \<in> set cs \<and> c \<noteq> ''__proto__''") auto
    with h show "grade_level s = c \<and> s \<in> set ?fetched" by simp
  qed
  have pr: "proto ?g = (if ''__proto__'' \<in> set cs
                          then Some (filter (\<lambda>s. grade_level s = ''__proto__'') ?fetched)
                          else None)"
    using proto_groupByClass [of ?fetched cs emptyObject] by (simp add: emptyObject_def)
  show "let m = studentsByClass (teacherDashboardEffect key ls (Some be) mountedAfter st);
             fetched = ?fetched
         in set (map fst (own m)) = set cs - {''__proto__''} \<and> distinct (map fst (own m))
            \<and> length (own m) = card (set cs - {''__proto__''})
            \<and> (distinct cs \<and> ''__proto__'' \<notin> set cs \<longrightarrow> length (own m) = length cs)
            \<and> (\<forall>c \<in> set cs. c \<noteq> ''__proto__'' \<longrightarrow>
                  map_of (own m) c = Some (filter (\<lambda>s. grade_level s = c) fetched))
            \<and> (\<forall>c xs s. map_of (own m) c = Some xs \<and> s \<in> set xs \<longrightarrow>
                  grade_level s = c \<and> s \<in> set fetched)
            \<and> proto m = (if ''__proto__'' \<in> set cs
                          then Some (filter (\<lambda>s. grade_level s = ''__proto__'') fetched)
                          else None)"
    unfolding Let_def m using d k l l' f g pr by (intro conjI)
next
  assume "assigned_classes p = None \<or> assigned_classes p = Some []"
  then show "studentsByClass (teacherDashboardEffect key ls (Some be) mountedAfter st) = emptyObject"
    using effect_no_classes(1) [of mountedAfter ls key u be p st] assms by blast
next
  assume "assigned_classes p = None \<or> assigned_classes p = Some []"
    and "raised (announcementsReply be) = None"
  then show "error (teacherDashboardEffect key ls (Some be) mountedAfter st) = None"
    using no_classes_error_resolved [of mountedAfter ls key u be p st] assms by blast
next
  fix e
  assume "assigned_classes p = None \<or> assigned_classes p = Some []"
    and "raised (announcementsReply be) = Some e"
  then show "error (teacherDashboardEffect key ls (Some be) mountedAfter st) =
                  (if str_includes (textOf e) ''announcements'' then None
                   else if str_includes (textOf e) ''profile'' \<or> str_includes (textOf e) ''students''
                   then Some (''Failed to load dashboard data: '' @ textOf e)
                   else Some ''An unexpected error occurred.'')"
    using no_classes_error_raised [of mountedAfter ls key u be p e st] assms by blast
qed

text \<open>Witness for C4: classes 5A and 5B with one fetched student of 5A, and a
  teacher without classes.\<close>

theorem class_mapping_by_name_witness:
  "(\<forall>n. always n)
   \<and> profileReply (good_backend [''5A'', ''5B'']) ''t1'' = Resolved (Some (teacher_of [''5A'', ''5B''])) None
   \<and> studentsReply (good_backend [''5A'', ''5B'']) [''5A'', ''5B''] = Resolved (Some [student_5A]) None
   \<and> length (own (studentsByClass (teacherDashboardEffect ''teacherUid'' [''teacherUid'' \<mapsto> ''t1'']
        (Some (good_backend [''5A'', ''5B''])) always teacher_page_init))) = 2
   \<and> map_of (own (studentsByClass (teacherDashboardEffect ''teacherUid'' [''teacherUid'' \<mapsto> ''t1'']
        (Some (good_backend [''5A'', ''5B''])) always teacher_page_init))) ''5A'' = Some [student_5A]
   \<and> map_of (own (studentsByClass (teacherDashboardEffect ''teacherUid'' [''teacherUid'' \<mapsto> ''t1'']
        (Some (good_backend [''5A'', ''5B''])) always teacher_page_init))) ''5B'' = Some []
   \<and> proto (studentsByClass (teacherDashboardEffect ''teacherUid'' [''teacherUid'' \<mapsto> ''t1'']
        (Some (good_backend [''5A'', ''5B''])) always teacher_page_init)) = None
   \<and> studentsByClass (teacherDashboardEffect ''teacherUid'' [''teacherUid'' \<mapsto> ''t1'']
        (Some (good_backend [])) always teacher_page_init) = emptyObject
   \<and> raised (announcementsReply (good_backend [])) = None
   \<and> error (teacherDashboardEffect ''teacherUid'' [''teacherUid'' \<mapsto> ''t1'']
        (Some (good_backend [])) always teacher_page_init) = None
   \<and> raised (announcementsReply ((good_backend [])\<lparr>announcementsReply := Rejected (Thrown None)\<rparr>))
       = Some (Thrown None)
   \<and> error (teacherDashboardEffect ''teacherUid'' [''teacherUid'' \<mapsto> ''t1'']
        (Some ((good_backend [])\<lparr>announcementsReply := Rejected (Thrown None)\<rparr>)) always teacher_page_init)
       = Some ''An unexpected error occurred.''"
proof -
  let ?down = "(good_backend [])\<lparr>announcementsReply := Rejected (Thrown None)\<rparr>"
  have a: "\<forall>n. always n" by (simp add: always_def)
  have h1: "[''teacherUid'' \<mapsto> ''t1''] ''teacherUid'' = Some ''t1''" by simp
  have h2: "''t1'' \<noteq> []" by simp
  have p: "profileReply (good_backend [''5A'', ''5B'']) ''t1'' = Resolved (Some (teacher_of [''5A'', ''5B''])) None"
    by (simp add: good_backend_def)
  have q: "profileReply (good_backend []) ''t1'' = Resolved (Some (teacher_of [])) None"
      "profileReply ?down ''t1'' = Resolved (Some (teacher_of [])) None"
    by (simp_all add: good_backend_def)
  have s: "studentsReply (good_backend [''5A'', ''5B'']) [''5A'', ''5B''] = Resolved (Some [student_5A]) None"
    by (simp add: good_backend_def)
  have c: "assigned_classes (teacher_of [''5A'', ''5B'']) = Some [''5A'', ''5B'']"
      "assigned_classes (teacher_of []) = Some []"
    by (simp_all add: teacher_of_def)
  have r: "raised (announcementsReply (good_backend [])) = None"
      "raised (announcementsReply ?down) = Some (Thrown None)"
    by (simp_all add: good_backend_def raised_def)
  have t: "\<not> str_includes (textOf (Thrown None)) ''announcements''"
      "\<not> str_includes (textOf (Thrown None)) ''profile''"
      "\<not> str_includes (textOf (Thrown None)) ''students''"
    by (simp_all add: textOf_def orElse_def)
  note A = class_mapping_by_name [where ls = "[''teacherUid'' \<mapsto> ''t1'']" and key = "''teacherUid''"
      and u = "''t1''" and be = "good_backend [''5A'', ''5B'']" and st = teacher_page_init
      and mountedAfter = always and p = "teacher_of [''5A'', ''5B'']", OF a h1 h2 p]
  note B = class_mapping_by_name [where ls = "[''teacherUid'' \<mapsto> ''t1'']" and key = "''teacherUid''"
      and u = "''t1''" and be = "good_backend []" and st = teacher_page_init
      and mountedAfter = always and p = "teacher_of []", OF a h1 h2 q(1)]
  note C = class_mapping_by_name [where ls = "[''teacherUid'' \<mapsto> ''t1'']" and key = "''teacherUid''"
      and u = "''t1''" and be = ?down and st = teacher_page_init
      and mountedAfter = always and p = "teacher_of []", OF a h1 h2 q(2)]
  from A c(1) s have 1:
    "let m = studentsByClass (teacherDashboardEffect ''teacherUid'' [''teacherUid'' \<mapsto> ''t1'']
        (Some (good_backend [''5A'', ''5B''])) always teacher_page_init);
         fetched = (case Some [student_5A] of None \<Rightarrow> [] | Some xs \<Rightarrow> xs)
     in set (map fst (own m)) = set [''5A'', ''5B''] - {''__proto__''} \<and> distinct (map fst (own m))
        \<and> length (own m) = card (set [''5A'', ''5B''] - {''__proto__''})
        \<and> (distinct [''5A'', ''5B''] \<and> ''__proto__'' \<notin> set [''5A'', ''5B''] \<longrightarrow> length (own m) = length [''5A'', ''5B''])
        \<and> (\<forall>c \<in> set [''5A'', ''5B'']. c \<noteq> ''__proto__'' \<longrightarrow>
              map_of (own m) c = Some (filter (\<lambda>s. grade_level s = c) fetched))
        \<and> (\<forall>c xs s. map_of (own m) c = Some xs \<and> s \<in> set xs \<longrightarrow> grade_level s = c \<and> s \<in> set fetched)
        \<and> proto m = (if ''__proto__'' \<in> set [''5A'', ''5B'']
                      then Some (filter (\<lambda>s. grade_level s = ''__proto__'') fetched) else None)"
    by blast
  from B c(2) r(1) have 2: "studentsByClass (teacherDashboardEffect ''teacherUid'' [''teacherUid'' \<mapsto> ''t1'']
        (Some (good_backend [])) always teacher_page_init) = emptyObject
      \<and> error (teacherDashboardEffect ''teacherUid'' [''teacherUid'' \<mapsto> ''t1'']
        (Some (good_backend [])) always teacher_page_init) = None"
    by blast
  from C c(2) r(2) have "error (teacherDashboardEffect ''teacherUid'' [''teacherUid'' \<mapsto> ''t1'']
        (Some ?down) always teacher_page_init) =
          (if str_includes (textOf (Thrown None)) ''announcements'' then None
           else if str_includes (textOf (Thrown None)) ''profile'' \<or> str_includes (textOf (Thrown None)) ''students''
           then Some (''Failed to load dashboard data: '' @ textOf (Thrown None))
           else Some ''An unexpected error occurred.'')"
    by blast
  with t have 6: "error (teacherDashboardEffect ''teacherUid'' [''teacherUid'' \<mapsto> ''t1'']
        (Some ?down) always teacher_page_init) = Some ''An unexpected error occurred.''"
    by simp
  from 1 have 3: "length (own (studentsByClass (teacherDashboardEffect ''teacherUid'' [''teacherUid'' \<mapsto> ''t1'']
        (Some (good_backend [''5A'', ''5B''])) always teacher_page_init))) = 2"
    by (simp add: Let_def)
  from 1 have 4: "map_of (own (studentsByClass (teacherDashboardEffect ''teacherUid'' [''teacherUid'' \<mapsto> ''t1'']
        (Some (good_backend [''5A'', ''5B''])) always teacher_page_init))) ''5A'' = Some [student_5A]"
    by (simp add: Let_def student_5A_def)
  from 1 have 5: "map_of (own (studentsByClass (teacherDashboardEffect ''teacherUid'' [''teacherUid'' \<mapsto> ''t1'']
        (Some (good_backend [''5A'', ''5B''])) always teacher_page_init))) ''5B'' = Some []"
    by (simp add: Let_def student_5A_def)
  from 1 have 7: "proto (studentsByClass (teacherDashboardEffect ''teacherUid'' [''teacherUid'' \<mapsto> ''t1'']
        (Some (good_backend [''5A'', ''5B''])) always teacher_page_init)) = None"
    by (simp add: Let_def)
  from a p s r 2 3 4 5 6 7 show ?thesis by blast
qed

text \<open>The load after the roster step, and the text of a failure that the catch block
  leaves to the generic message.\<close>

lemma quiet_announcementsStep:
  assumes "quiet (announcementsReply be)"
  shows "error (tryCatch (announcementsStep m be s)) = error s
     \<and> isLoading (tryCatch (announcementsStep m be s)) = isLoading s
     \<and> isMounted (tryCatch (announcementsStep m be s)) = m (Suc (length (issued s)))"
proof (cases "raised (announcementsReply be)")
  case None
  then obtain a where "announcementsReply be = Resolved a None" using raised_None by blast
  then show ?thesis
    by (simp add: announcementsStep_resolved tryCatch_def await_def Let_def)
next
  case (Some e)
  with assms have "str_includes (orElse (thrown_message e) ''An unknown error occurred'') ''announcements''"
    by (simp add: quiet_def textOf_def)
  with Some show ?thesis
    by (simp add: announcementsStep_raised tryCatch_Inl catchBlock_def await_def Let_def)
qed

text \<open>The state in which the announcements step starts, for a roster that did not fail.\<close>

lemma profileStep_not_failed:
  assumes "\<forall>n. m n" "profileReply be u = Resolved d None" "\<not> rosterFailed be u" "isMounted s"
  shows "\<exists>s2. profileStep m be u s = Inr s2 \<and> isMounted s2 \<and> teacherProfile s2 = (case d of None \<Rightarrow> teacherProfile s | Some p \<Rightarrow> Some p)
          \<and> error s2 = (case d of None \<Rightarrow> Some notFoundText | Some p \<Rightarrow> error s)
          \<and> isLoading s2 = isLoading s \<and> announcements s2 = announcements s"
proof (cases d)
  case None
  then show ?thesis using assms
    by (simp add: profileStep_ok rosterStep_not_found await_def notFoundText_def)
next
  case (Some p)
  show ?thesis
  proof (cases "nonEmptyClasses p")
    case True
    then obtain cs where cs: "assigned_classes p = Some cs" "cs \<noteq> []"
      by (auto simp: nonEmptyClasses_def split: option.splits)
    with assms(2,3) Some True have "raised (studentsReply be cs) = None"
      by (auto simp: rosterFailed_def failed_raised)
    then show ?thesis using assms Some cs
      by (simp add: profileStep_ok rosterStep_listOf await_def Let_def)
  next
    case False
    then have "assigned_classes p = None \<or> assigned_classes p = Some []"
      by (auto simp: nonEmptyClasses_def split: option.splits)
    then show ?thesis using assms Some
      by (simp add: profileStep_ok rosterStep_no_classes await_def Let_def)
  qed
qed

lemma effect_after_roster:
  assumes "\<forall>n. m n" "ls key = Some u" "u \<noteq> []"
    "profileReply be u = Resolved d None" "\<not> rosterFailed be u"
  shows "\<exists>s2. isMounted s2 \<and> teacherProfile s2 = (case d of None \<Rightarrow> teacherProfile st | Some p \<Rightarrow> Some p)
          \<and> error s2 = (case d of None \<Rightarrow> Some notFoundText | Some p \<Rightarrow> None)
          \<and> teacherDashboardEffect key ls (Some be) m st
              = (finallyBlock (tryCatch (announcementsStep m be s2)))\<lparr>isLoading := False\<rparr>"
proof -
  let ?s = "st\<lparr>isMounted := True, supabaseRef := Some be, isLoading := True, error := None\<rparr>"
  from profileStep_not_failed [of m be u d ?s] assms
  obtain s2 where s2: "profileStep m be u ?s = Inr s2" "isMounted s2"
      "teacherProfile s2 = (case d of None \<Rightarrow> teacherProfile ?s | Some p \<Rightarrow> Some p)"
      "error s2 = (case d of None \<Rightarrow> Some notFoundText | Some p \<Rightarrow> error ?s)"
    by auto
  have mt: "isMounted (finallyBlock (tryCatch (announcementsStep m be s2)))"
  proof (cases "announcementsStep m be s2")
    case (Inl t)
    obtain e s' where t: "t = (e, s')" by (cases t)
    with Inl assms(1) have "isMounted s'"
      by (auto simp: announcementsStep_def await_def Let_def split: reply.splits option.splits)
    with Inl t show ?thesis by (simp add: tryCatch_def finallyBlock_frame catchBlock_frame)
  next
    case (Inr s')
    with assms(1) have "isMounted s'"
      by (auto simp: announcementsStep_def await_def Let_def split: reply.splits option.splits if_splits)
    with Inr show ?thesis by (simp add: tryCatch_def finallyBlock_frame)
  qed
  have "teacherDashboardEffect key ls (Some be) m st
              = (finallyBlock (tryCatch (announcementsStep m be s2)))\<lparr>isLoading := False\<rparr>"
    using assms(2,3) s2(1) mt by (simp add: effect_unfold tryBody_def Let_def)
  with s2 show ?thesis by (cases d) auto
qed

lemma notFound_includes:
  "str_includes notFoundText ''profile could not be found''"
  "\<not> str_includes notFoundText ''Not authenticated''"
  "notFoundText \<noteq> []"
  by (simp_all add: notFoundText_def)

lemma quiet_return:
  assumes "\<forall>n. m n" "ls key = Some u" "u \<noteq> []"
    "profileReply be u = Resolved d None" "\<not> rosterFailed be u" "quiet (announcementsReply be)"
  shows "error (teacherDashboardEffect key ls (Some be) m st)
           = (case d of None \<Rightarrow> Some notFoundText | Some p \<Rightarrow> None)
     \<and> renderTeacherDashboard (teacherDashboardEffect key ls (Some be) m st)
           = (case d of None \<Rightarrow> ProfileIssueCard notFoundText False True | Some p \<Rightarrow> DashboardReached)"
proof -
  from effect_after_roster [of m ls key u be d st] assms(1-5)
  obtain s2 where s2: "isMounted s2"
      "teacherProfile s2 = (case d of None \<Rightarrow> teacherProfile st | Some p \<Rightarrow> Some p)"
      "error s2 = (case d of None \<Rightarrow> Some notFoundText | Some p \<Rightarrow> None)"
      "teacherDashboardEffect key ls (Some be) m st
              = (finallyBlock (tryCatch (announcementsStep m be s2)))\<lparr>isLoading := False\<rparr>"
    by blast
  have e: "error (teacherDashboardEffect key ls (Some be) m st)
           = (case d of None \<Rightarrow> Some notFoundText | Some p \<Rightarrow> None)"
    using s2 quiet_announcementsStep [OF assms(6), of m s2] by (simp add: finallyBlock_frame)
  have t: "teacherProfile (teacherDashboardEffect key ls (Some be) m st)
           = (case d of None \<Rightarrow> teacherProfile st | Some p \<Rightarrow> Some p)"
    using s2 tryCatch_announcementsStep [of m be s2] by (simp add: finallyBlock_frame)
  have l: "\<not> isLoading (teacherDashboardEffect key ls (Some be) m st)"
    using s2(4) by simp
  show ?thesis
    using e t l by (cases d) (simp_all add: renderTeacherDashboard_def notFound_includes)
qed

lemma failure_routed:
  assumes "\<forall>n. m n" "ls key = Some u" "u \<noteq> []"
    "profileReply be u = Resolved d None" "\<not> rosterFailed be u"
    "raised (announcementsReply be) = Some e"
  shows "if str_includes (textOf e) ''announcements''
         then announcementsError (teacherDashboardEffect key ls (Some be) m st)
                = Some (''Failed to load announcements: '' @ textOf e)
         else announcementsError (teacherDashboardEffect key ls (Some be) m st) = None
              \<and> error (teacherDashboardEffect key ls (Some be) m st)
                  = Some ((case d of None \<Rightarrow> notFoundText @ '' '' | Some p \<Rightarrow> [])
                          @ (if str_includes (textOf e) ''profile'' \<or> str_includes (textOf e) ''students''
                             then ''Failed to load dashboard data: '' @ textOf e
                             else ''An unexpected error occurred.''))"
proof -
  from effect_after_roster [of m ls key u be d st] assms(1-5)
  obtain s2 where s2: "isMounted s2"
      "error s2 = (case d of None \<Rightarrow> Some notFoundText | Some p \<Rightarrow> None)"
      "teacherDashboardEffect key ls (Some be) m st
              = (finallyBlock (tryCatch (announcementsStep m be s2)))\<lparr>isLoading := False\<rparr>"
    by blast
  show ?thesis
    using s2 assms(1,6)
    by (cases d)
      (simp_all add: announcementsStep_raised tryCatch_Inl catchBlock_def textOf_def await_def
        Let_def finallyBlock_def notFound_includes)
qed

text \<open>
  C3, as stated, has the announcements fetched whenever the profile or students fetch
  fails.  With a backend whose profile query fails, the load sends the profile query only;
  with one whose students query fails, it sends the profile and students queries only and
  stores no announcement, although the backend would return six.
\<close>

theorem announcements_after_failure_counterexample:
  "failed (profileReply profile_down ''t1'')
   \<and> announcementsReply profile_down = Resolved (Some six_announcements) None
   \<and> issued (teacherDashboardEffect ''teacherUid'' [''teacherUid'' \<mapsto> ''t1'']
        (Some profile_down) always teacher_page_init) = [QTeacherProfile ''t1'']
   \<and> failed (studentsReply students_down [''5A'', ''5B''])
   \<and> announcementsReply students_down = Resolved (Some six_announcements) None
   \<and> issued (teacherDashboardEffect ''teacherUid'' [''teacherUid'' \<mapsto> ''t1'']
        (Some students_down) always teacher_page_init)
       = [QTeacherProfile ''t1'', QStudents [''5A'', ''5B'']]
   \<and> announcements (teacherDashboardEffect ''teacherUid'' [''teacherUid'' \<mapsto> ''t1'']
        (Some students_down) always teacher_page_init) = []"
  by (simp add: load_defs sample_defs failed_def Let_def emptyObject_def)

text \<open>
  C3, amended.  The two groups have separate error states (\<open>error\<close> and
  \<open>announcementsError\<close>).  For a load with a stored teacher identifier: the announcements
  query is sent exactly when neither the profile query nor the students query failed, and
  after such a failure the stored announcements are the ones from before the load.  In the
  other direction, the stored profile and class mapping do not depend on what the
  announcements query answers.  When the component stays mounted and the roster did not
  fail: if the announcements query does not fail, or fails with a text containing
  "announcements", then \<open>error\<close> and the \<open>return\<close> the page takes are decided by the
  profile alone (no error and the dashboard when the profile was found, the "could not be
  found" text and the profile error card when it was not), and such a failure puts its
  text into \<open>announcementsError\<close>; a failure with any other text leaves
  \<open>announcementsError\<close> empty and is written to \<open>error\<close>, after the text that is there.
\<close>

theorem announcements_after_roster:
  assumes "ls key = Some u" and "u \<noteq> []"
  shows
    "(rosterFailed be u \<longleftrightarrow>
        QAnnouncements \<notin> set (sentBy st (teacherDashboardEffect key ls (Some be) m st)))
     \<and> (rosterFailed be u \<longrightarrow>
          announcements (teacherDashboardEffect key ls (Some be) m st) = announcements st)
     \<and> (\<forall>r. teacherProfile (teacherDashboardEffect key ls (Some (be\<lparr>announcementsReply := r\<rparr>)) m st)
              = teacherProfile (teacherDashboardEffect key ls (Some be) m st)
            \<and> studentsByClass (teacherDashboardEffect key ls (Some (be\<lparr>announcementsReply := r\<rparr>)) m st)
              = studentsByClass (teacherDashboardEffect key ls (Some be) m st))
     \<and> (\<forall>d. (\<forall>n. m n) \<and> profileReply be u = Resolved d None \<and> \<not> rosterFailed be u \<longrightarrow>
          (quiet (announcementsReply be) \<longrightarrow>
             error (teacherDashboardEffect key ls (Some be) m st)
               = (case d of None \<Rightarrow> Some notFoundText | Some p \<Rightarrow> None)
             \<and> renderTeacherDashboard (teacherDashboardEffect key ls (Some be) m st)
               = (case d of None \<Rightarrow> ProfileIssueCard notFoundText False True
                  | Some p \<Rightarrow> DashboardReached))
          \<and> (\<forall>e. raised (announcementsReply be) = Some e \<longrightarrow>
                (if str_includes (textOf e) ''announcements''
                 then announcementsError (teacherDashboardEffect key ls (Some be) m st)
                        = Some (''Failed to load announcements: '' @ textOf e)
                 else announcementsError (teacherDashboardEffect key ls (Some be) m st) = None
                      \<and> error (teacherDashboardEffect key ls (Some be) m st)
                          = Some ((case d of None \<Rightarrow> notFoundText @ '' '' | Some p \<Rightarrow> [])
                                  @ (if str_includes (textOf e) ''profile''
                                        \<or> str_includes (textOf e) ''students''
                                     then ''Failed to load dashboard data: '' @ textOf e
                                     else ''An unexpected error occurred.'')))))"
proof (intro conjI)
  show "rosterFailed be u \<longleftrightarrow>
        QAnnouncements \<notin> set (sentBy st (teacherDashboardEffect key ls (Some be) m st))"
    using sent_roster_failed [of ls key u be st m] sent_roster_ok [of ls key u be st m] assms
    by blast
  show "rosterFailed be u \<longrightarrow>
          announcements (teacherDashboardEffect key ls (Some be) m st) = announcements st"
    using sent_roster_failed [of ls key u be st m] assms by blast
  show "\<forall>r. teacherProfile (teacherDashboardEffect key ls (Some (be\<lparr>announcementsReply := r\<rparr>)) m st)
              = teacherProfile (teacherDashboardEffect key ls (Some be) m st)
            \<and> studentsByClass (teacherDashboardEffect key ls (Some (be\<lparr>announcementsReply := r\<rparr>)) m st)
              = studentsByClass (teacherDashboardEffect key ls (Some be) m st)"
    using roster_independent by blast
  show "\<forall>d. (\<forall>n. m n) \<and> profileReply be u = Resolved d None \<and> \<not> rosterFailed be u \<longrightarrow>
          (quiet (announcementsReply be) \<longrightarrow>
             error (teacherDashboardEffect key ls (Some be) m st)
               = (case d of None \<Rightarrow> Some notFoundText | Some p \<Rightarrow> None)
             \<and> renderTeacherDashboard (teacherDashboardEffect key ls (Some be) m st)
               = (case d of None \<Rightarrow> ProfileIssueCard notFoundText False True
                  | Some p \<Rightarrow> DashboardReached))
          \<and> (\<forall>e. raised (announcementsReply be) = Some e \<longrightarrow>
                (if str_includes (textOf e) ''announcements''
                 then announcementsError (teacherDashboardEffect key ls (Some be) m st)
                        = Some (''Failed to load announcements: '' @ textOf e)
                 else announcementsError (teacherDashboardEffect key ls (Some be) m st) = None
                      \<and> error (teacherDashboardEffect key ls (Some be) m st)
                          = Some ((case d of None \<Rightarrow> notFoundText @ '' '' | Some p \<Rightarrow> [])
                                  @ (if str_includes (textOf e) ''profile''
                                        \<or> str_includes (textOf e) ''students''
                                     then ''Failed to load dashboard data: '' @ textOf e
                                     else ''An unexpected error occurred.''))))"
  proof (intro allI impI conjI)
    fix d
    assume h: "(\<forall>n. m n) \<and> profileReply be u = Resolved d None \<and> \<not> rosterFailed be u"
    {
      assume q: "quiet (announcementsReply be)"
      from quiet_return [of m ls key u be d st] h q assms
      show "error (teacherDashboardEffect key ls (Some be) m st)
               = (case d of None \<Rightarrow> Some notFoundText | Some p \<Rightarrow> None)"
        and "renderTeacherDashboard (teacherDashboardEffect key ls (Some be) m st)
               = (case d of None \<Rightarrow> ProfileIssueCard notFoundText False True
                  | Some p \<Rightarrow> DashboardReached)"
        by blast+
    }
    fix e
    assume r: "raised (announcementsReply be) = Some e"
    from failure_routed [of m ls key u be d e st] h r assms
    show "if str_includes (textOf e) ''announcements''
                 then announcementsError (teacherDashboardEffect key ls (Some be) m st)
                        = Some (''Failed to load announcements: '' @ textOf e)
                 else announcementsError (teacherDashboardEffect key ls (Some be) m st) = None
                      \<and> error (teacherDashboardEffect key ls (Some be) m st)
                          = Some ((case d of None \<Rightarrow> notFoundText @ '' '' | Some p \<Rightarrow> [])
                                  @ (if str_includes (textOf e) ''profile''
                                        \<or> str_includes (textOf e) ''students''
                                     then ''Failed to load dashboard data: '' @ textOf e
                                     else ''An unexpected error occurred.''))"
      by blast
  qed
qed

text \<open>Witness for C3: a backend whose students query fails, one whose announcements
  query fails with a text containing "announcements", and one whose announcements query
  rejects without a text.\<close>

theorem announcements_after_roster_witness:
  "rosterFailed students_down ''t1''
   \<and> QAnnouncements \<notin> set (sentBy teacher_page_init
        (teacherDashboardEffect ''teacherUid'' [''teacherUid'' \<mapsto> ''t1''] (Some students_down) always teacher_page_init))
   \<and> \<not> rosterFailed announcements_down ''t1''
   \<and> QAnnouncements \<in> set (sentBy teacher_page_init
        (teacherDashboardEffect ''teacherUid'' [''teacherUid'' \<mapsto> ''t1''] (Some announcements_down) always teacher_page_init))
   \<and> quiet (announcementsReply announcements_down)
   \<and> error (teacherDashboardEffect ''teacherUid'' [''teacherUid'' \<mapsto> ''t1''] (Some announcements_down) always teacher_page_init) = None
   \<and> renderTeacherDashboard (teacherDashboardEffect ''teacherUid'' [''teacherUid'' \<mapsto> ''t1''] (Some announcements_down) always teacher_page_init)
       = DashboardReached
   \<and> announcementsError (teacherDashboardEffect ''teacherUid'' [''teacherUid'' \<mapsto> ''t1''] (Some announcements_down) always teacher_page_init)
       = Some ''Failed to load announcements: permission denied for table school_announcements''
   \<and> error (teacherDashboardEffect ''teacherUid'' [''teacherUid'' \<mapsto> ''t1'']
        (Some ((good_backend [])\<lparr>announcementsReply := Rejected (Thrown None)\<rparr>)) always teacher_page_init)
       = Some ''An unexpected error occurred.''"
proof -
  let ?loud = "(good_backend [])\<lparr>announcementsReply := Rejected (Thrown None)\<rparr>"
  let ?msg = "''permission denied for table school_announcements''"
  have h1: "[''teacherUid'' \<mapsto> ''t1''] ''teacherUid'' = Some ''t1''" by simp
  have h2: "''t1'' \<noteq> []" by simp
  have a: "\<forall>n. always n" by (simp add: always_def)
  have f: "rosterFailed students_down ''t1''"
    by (simp add: rosterFailed_def failed_def nonEmptyClasses_def sample_defs)
  have g: "\<not> rosterFailed announcements_down ''t1''" "\<not> rosterFailed ?loud ''t1''"
    by (simp_all add: rosterFailed_def failed_def nonEmptyClasses_def sample_defs)
  have r: "raised (announcementsReply announcements_down) = Some (Thrown (Some ?msg))"
      "raised (announcementsReply ?loud) = Some (Thrown None)"
    by (simp_all add: raised_def throw_error_def sample_defs)
  have p: "profileReply announcements_down ''t1'' = Resolved (Some (teacher_of [''5A'', ''5B''])) None"
      "profileReply ?loud ''t1'' = Resolved (Some (teacher_of [])) None"
    by (simp_all add: sample_defs)
  have i: "textOf (Thrown (Some ?msg)) = ?msg" "str_includes ?msg ''announcements''"
      "textOf (Thrown None) = ''An unknown error occurred''"
      "\<not> str_includes ''An unknown error occurred'' ''announcements''"
      "\<not> str_includes ''An unknown error occurred'' ''profile''"
      "\<not> str_includes ''An unknown error occurred'' ''students''"
    by (simp_all add: textOf_def orElse_def)
  from r(1) i have q: "quiet (announcementsReply announcements_down)"
    by (simp add: quiet_def)
  note A = announcements_after_roster [where ls = "[''teacherUid'' \<mapsto> ''t1'']" and key = "''teacherUid''"
      and u = "''t1''" and be = students_down and st = teacher_page_init and m = always, OF h1 h2]
  note B = announcements_after_roster [where ls = "[''teacherUid'' \<mapsto> ''t1'']" and key = "''teacherUid''"
      and u = "''t1''" and be = announcements_down and st = teacher_page_init and m = always, OF h1 h2]
  note C = announcements_after_roster [where ls = "[''teacherUid'' \<mapsto> ''t1'']" and key = "''teacherUid''"
      and u = "''t1''" and be = ?loud and st = teacher_page_init and m = always, OF h1 h2]
  from A f have 1: "QAnnouncements \<notin> set (sentBy teacher_page_init
        (teacherDashboardEffect ''teacherUid'' [''teacherUid'' \<mapsto> ''t1''] (Some students_down) always teacher_page_init))"
    by blast
  from B g(1) have 2: "QAnnouncements \<in> set (sentBy teacher_page_init
        (teacherDashboardEffect ''teacherUid'' [''teacherUid'' \<mapsto> ''t1''] (Some announcements_down) always teacher_page_init))"
    by blast
  from B have B4: "(\<forall>n. always n) \<and> profileReply announcements_down ''t1'' = Resolved (Some (teacher_of [''5A'', ''5B''])) None
        \<and> \<not> rosterFailed announcements_down ''t1'' \<longrightarrow>
          (quiet (announcementsReply announcements_down) \<longrightarrow>
             error (teacherDashboardEffect ''teacherUid'' [''teacherUid'' \<mapsto> ''t1''] (Some announcements_down) always teacher_page_init)
               = (case Some (teacher_of [''5A'', ''5B'']) of None \<Rightarrow> Some notFoundText | Some p \<Rightarrow> None)
             \<and> renderTeacherDashboard (teacherDashboardEffect ''teacherUid'' [''teacherUid'' \<mapsto> ''t1''] (Some announcements_down) always teacher_page_init)
               = (case Some (teacher_of [''5A'', ''5B'']) of None \<Rightarrow> ProfileIssueCard notFoundText False True
                  | Some p \<Rightarrow> DashboardReached))
          \<and> (raised (announcementsReply announcements_down) = Some (Thrown (Some ?msg)) \<longrightarrow>
                (if str_includes (textOf (Thrown (Some ?msg))) ''announcements''
                 then announcementsError (teacherDashboardEffect ''teacherUid'' [''teacherUid'' \<mapsto> ''t1''] (Some announcements_down) always teacher_page_init)
                        = Some (''Failed to load announcements: '' @ textOf (Thrown (Some ?msg)))
                 else True))"
    by (elim conjE allE [of _ "Some (teacher_of [''5A'', ''5B''])"]) (auto split: if_splits)
  from B4 a p(1) g(1) q r(1) i(1,2) have 3:
    "error (teacherDashboardEffect ''teacherUid'' [''teacherUid'' \<mapsto> ''t1''] (Some announcements_down) always teacher_page_init) = None"
    "renderTeacherDashboard (teacherDashboardEffect ''teacherUid'' [''teacherUid'' \<mapsto> ''t1''] (Some announcements_down) always teacher_page_init)
       = DashboardReached"
    "announcementsError (teacherDashboardEffect ''teacherUid'' [''teacherUid'' \<mapsto> ''t1''] (Some announcements_down) always teacher_page_init)
       = Some (''Failed to load announcements: '' @ ?msg)"
    by simp_all
  from C have C4: "(\<forall>n. always n) \<and> profileReply ?loud ''t1'' = Resolved (Some (teacher_of [])) None
        \<and> \<not> rosterFailed ?loud ''t1'' \<longrightarrow>
          (raised (announcementsReply ?loud) = Some (Thrown None) \<longrightarrow>
                (if str_includes (textOf (Thrown None)) ''announcements''
                 then True
                 else error (teacherDashboardEffect ''teacherUid'' [''teacherUid'' \<mapsto> ''t1''] (Some ?loud) always teacher_page_init)
                          = Some ((case Some (teacher_of []) of None \<Rightarrow> notFoundText @ '' '' | Some p \<Rightarrow> [])
                                  @ (if str_includes (textOf (Thrown None)) ''profile''
                                        \<or> str_includes (textOf (Thrown None)) ''students''
                                     then ''Failed to load dashboard data: '' @ textOf (Thrown None)
                                     else ''An unexpected error occurred.'')))) "
    by (elim conjE allE [of _ "Some (teacher_of [])"]) (auto split: if_splits)
  from C4 a p(2) g(2) r(2) i(3-6) have 4:
    "error (teacherDashboardEffect ''teacherUid'' [''teacherUid'' \<mapsto> ''t1''] (Some ?loud) always teacher_page_init)
       = Some ''An unexpected error occurred.''"
    by simp
  from f g(1) q 1 2 3 4 show ?thesis by simp
qed

text \<open>The cards of a list of announcements.\<close>

lemma renderCards_Inr:
  "renderCards rel xs = Inr cards \<Longrightarrow>
     length cards = length xs \<and> map card_key cards = map ann_id xs
     \<and> map card_title cards = map title xs \<and> map card_message cards = map ann_message xs
     \<and> (\<forall>a \<in> set xs. rel (created_at a) \<noteq> None)"
proof (induction xs arbitrary: cards)
  case Nil
  then show ?case by simp
next
  case (Cons a xs)
  from Cons.prems obtain c cs where c: "cardFor rel a = Inr c" "renderCards rel xs = Inr cs"
      "cards = c # cs"
    by (auto split: sum.splits)
  from c(1) have "rel (created_at a) \<noteq> None \<and> card_key c = ann_id a \<and> card_title c = title a
      \<and> card_message c = ann_message a"
    by (auto simp: cardFor_def split: option.splits)
  with Cons.IH [OF c(2)] c(3) show ?case by simp
qed

lemma renderCards_throws:
  "\<exists>a \<in> set xs. rel (created_at a) = None \<Longrightarrow> renderCards rel xs = Inl RangeError"
proof (induction xs)
  case Nil
  then show ?case by simp
next
  case (Cons a xs)
  show ?case
  proof (cases "rel (created_at a)")
    case None
    then show ?thesis by (simp add: cardFor_def)
  next
    case (Some t)
    with Cons.prems have "\<exists>a \<in> set xs. rel (created_at a) = None" by auto
    with Cons.IH Some show ?thesis by (simp add: cardFor_def)
  qed
qed

lemma renderCards_returns:
  "\<forall>a \<in> set xs. rel (created_at a) \<noteq> None \<Longrightarrow> \<exists>cards. renderCards rel xs = Inr cards"
proof (induction xs)
  case Nil
  then show ?case by simp
next
  case (Cons a xs)
  then obtain t cs where "rel (created_at a) = Some t" "renderCards rel xs = Inr cs" by auto
  then show ?case by (simp add: cardFor_def)
qed

lemma loaded_announcements:
  assumes "\<forall>n. m n" and "ls key = Some u" and "u \<noteq> []"
    and "profileReply be u = Resolved (Some p) None" and "\<not> rosterFailed be u"
    and "announcementsReply be = Resolved (Some xs) None"
  shows "announcements (teacherDashboardEffect key ls (Some be) m st) = xs
     \<and> \<not> isLoadingAnnouncements (teacherDashboardEffect key ls (Some be) m st)
     \<and> announcementsError (teacherDashboardEffect key ls (Some be) m st) = None
     \<and> renderTeacherDashboard (teacherDashboardEffect key ls (Some be) m st) = DashboardReached"
proof -
  from effect_after_roster [of m ls key u be "Some p" st] assms(1-5)
  obtain s2 where s2: "isMounted s2"
      "teacherDashboardEffect key ls (Some be) m st
              = (finallyBlock (tryCatch (announcementsStep m be s2)))\<lparr>isLoading := False\<rparr>"
    by auto
  have q: "quiet (announcementsReply be)" using assms(6) by (simp add: quiet_def raised_def)
  have r: "renderTeacherDashboard (teacherDashboardEffect key ls (Some be) m st) = DashboardReached"
    using quiet_return [of m ls key u be "Some p" st] assms(1-5) q by simp
  show ?thesis
    using s2 assms(1,6) r
    by (simp add: announcementsStep_resolved tryCatch_def await_def Let_def finallyBlock_def)
qed

text \<open>
  C9, as stated, has the first five entries and, for more than five, the "View All"
  element rendered for every returned list.  A load returns seven announcements, the
  first with a \<open>created_at\<close> that is not a date: the component reaches the dashboard and
  the list is to be shown, but evaluating the card throws, so neither cards nor "View
  All" are rendered.
\<close>

theorem announcement_cards_counterexample:
  "announcements (teacherDashboardEffect ''teacherUid'' [''teacherUid'' \<mapsto> ''t1'']
        (Some undated_backend) always teacher_page_init)
     = undated_announcement # six_announcements
   \<and> length (undated_announcement # six_announcements) = 7
   \<and> sample_relativeTime (created_at undated_announcement) = None
   \<and> renderTeacherDashboard (teacherDashboardEffect ''teacherUid'' [''teacherUid'' \<mapsto> ''t1'']
        (Some undated_backend) always teacher_page_init) = DashboardReached
   \<and> announcementsCard sample_relativeTime
        (teacherDashboardEffect ''teacherUid'' [''teacherUid'' \<mapsto> ''t1'']
           (Some undated_backend) always teacher_page_init) = Inl RangeError"
  by (simp add: load_defs sample_defs undated_backend_def undated_announcement_def
      sample_relativeTime_def announcementsCard_def cardFor_def renderTeacherDashboard_def
      emptyObject_def assignProp_def Let_def)

text \<open>
  C9, amended.  Whatever list of announcements the dashboard holds, whenever the
  announcements card is rendered its "View All" element is there exactly when the list
  has more than five entries, and the cards it lists are those of the first five entries
  of the list, in its order, so at most five.  The list is shown (when not loading,
  without announcements error and non-empty) provided the \<open>created_at\<close> of each of the
  first five entries parses as a date; when one of them does not, evaluating the card
  throws and nothing is rendered.  For a load that stays mounted and whose queries all
  succeed, the list held is the one the announcements query returned and the component
  reaches the dashboard.
\<close>

theorem announcement_cards_at_most_five:
  "(\<forall>c. announcementsCard rel st = Inr c \<longrightarrow>
       viewAll c = (length (announcements st) > 5)
       \<and> (\<forall>cards. ann_body c = AnnCards cards \<longrightarrow>
             length cards \<le> 5 \<and> length cards = length (take 5 (announcements st))
             \<and> map card_key cards = map ann_id (take 5 (announcements st))
             \<and> map card_title cards = map title (take 5 (announcements st))
             \<and> map card_message cards = map ann_message (take 5 (announcements st))))
   \<and> (\<not> isLoadingAnnouncements st \<and> \<not> truthy (announcementsError st) \<and> announcements st \<noteq> []
        \<and> (\<forall>a \<in> set (take 5 (announcements st)). rel (created_at a) \<noteq> None) \<longrightarrow>
        (\<exists>cards. announcementsCard rel st
                   = Inr \<lparr>ann_body = AnnCards cards, viewAll = (length (announcements st) > 5)\<rparr>))
   \<and> (\<not> isLoadingAnnouncements st \<and> \<not> truthy (announcementsError st)
        \<and> (\<exists>a \<in> set (take 5 (announcements st)). rel (created_at a) = None) \<longrightarrow>
        announcementsCard rel st = Inl RangeError)
   \<and> (isLoadingAnnouncements st \<or> truthy (announcementsError st) \<or> announcements st = [] \<longrightarrow>
        (\<exists>c. announcementsCard rel st = Inr c \<and> viewAll c = (length (announcements st) > 5)
             \<and> (\<forall>cards. ann_body c \<noteq> AnnCards cards)))
   \<and> (\<forall>u p xs. (\<forall>n. m n) \<and> ls key = Some u \<and> u \<noteq> []
          \<and> profileReply be u = Resolved (Some p) None \<and> \<not> rosterFailed be u
          \<and> announcementsReply be = Resolved (Some xs) None \<longrightarrow>
        announcements (teacherDashboardEffect key ls (Some be) m start) = xs
        \<and> \<not> isLoadingAnnouncements (teacherDashboardEffect key ls (Some be) m start)
        \<and> announcementsError (teacherDashboardEffect key ls (Some be) m start) = None
        \<and> renderTeacherDashboard (teacherDashboardEffect key ls (Some be) m start) = DashboardReached)"
proof (intro conjI)
  show "\<forall>c. announcementsCard rel st = Inr c \<longrightarrow>
       viewAll c = (length (announcements st) > 5)
       \<and> (\<forall>cards. ann_body c = AnnCards cards \<longrightarrow>
             length cards \<le> 5 \<and> length cards = length (take 5 (announcements st))
             \<and> map card_key cards = map ann_id (take 5 (announcements st))
             \<and> map card_title cards = map title (take 5 (announcements st))
             \<and> map card_message cards = map ann_message (take 5 (announcements st)))"
  proof (intro allI impI conjI)
    fix c
    assume c: "announcementsCard rel st = Inr c"
    then show "viewAll c = (length (announcements st) > 5)"
      by (auto simp: announcementsCard_def split: if_splits sum.splits)
    fix cards
    assume b: "ann_body c = AnnCards cards"
    with c have "renderCards rel (take 5 (announcements st)) = Inr cards"
      by (auto simp: announcementsCard_def split: if_splits sum.splits)
    from renderCards_Inr [OF this]
    show "length cards \<le> 5" "length cards = length (take 5 (announcements st))"
      "map card_key cards = map ann_id (take 5 (announcements st))"
      "map card_title cards = map title (take 5 (announcements st))"
      "map card_message cards = map ann_message (take 5 (announcements st))"
      by simp_all
  qed
  show "\<not> isLoadingAnnouncements st \<and> \<not> truthy (announcementsError st) \<and> announcements st \<noteq> []
        \<and> (\<forall>a \<in> set (take 5 (announcements st)). rel (created_at a) \<noteq> None) \<longrightarrow>
        (\<exists>cards. announcementsCard rel st
                   = Inr \<lparr>ann_body = AnnCards cards, viewAll = (length (announcements st) > 5)\<rparr>)"
  proof
    assume h: "\<not> isLoadingAnnouncements st \<and> \<not> truthy (announcementsError st) \<and> announcements st \<noteq> []
        \<and> (\<forall>a \<in> set (take 5 (announcements st)). rel (created_at a) \<noteq> None)"
    then obtain cards where "renderCards rel (take 5 (announcements st)) = Inr cards"
      using renderCards_returns [of "take 5 (announcements st)" rel] by blast
    with h show "\<exists>cards. announcementsCard rel st
                   = Inr \<lparr>ann_body = AnnCards cards, viewAll = (length (announcements st) > 5)\<rparr>"
      by (simp add: announcementsCard_def)
  qed
  show "\<not> isLoadingAnnouncements st \<and> \<not> truthy (announcementsError st)
        \<and> (\<exists>a \<in> set (take 5 (announcements st)). rel (created_at a) = None) \<longrightarrow>
        announcementsCard rel st = Inl RangeError"
  proof
    assume h: "\<not> isLoadingAnnouncements st \<and> \<not> truthy (announcementsError st)
        \<and> (\<exists>a \<in> set (take 5 (announcements st)). rel (created_at a) = None)"
    then have "renderCards rel (take 5 (announcements st)) = Inl RangeError"
      using renderCards_throws [of "take 5 (announcements st)" rel] by blast
    moreover from h have "announcements st \<noteq> []" by auto
    ultimately show "announcementsCard rel st = Inl RangeError"
      using h by (simp add: announcementsCard_def)
  qed
  show "isLoadingAnnouncements st \<or> truthy (announcementsError st) \<or> announcements st = [] \<longrightarrow>
        (\<exists>c. announcementsCard rel st = Inr c \<and> viewAll c = (length (announcements st) > 5)
             \<and> (\<forall>cards. ann_body c \<noteq> AnnCards cards))"
    by (auto simp: announcementsCard_def)
  show "\<forall>u p xs. (\<forall>n. m n) \<and> ls key = Some u \<and> u \<noteq> []
          \<and> profileReply be u = Resolved (Some p) None \<and> \<not> rosterFailed be u
          \<and> announcementsReply be = Resolved (Some xs) None \<longrightarrow>
        announcements (teacherDashboardEffect key ls (Some be) m start) = xs
        \<and> \<not> isLoadingAnnouncements (teacherDashboardEffect key ls (Some be) m start)
        \<and> announcementsError (teacherDashboardEffect key ls (Some be) m start) = None
        \<and> renderTeacherDashboard (teacherDashboardEffect key ls (Some be) m start) = DashboardReached"
    using loaded_announcements [of m ls key _ be _ _ start] by blast
qed

text \<open>Witness for C9: six announcements held and shown, seven with an unparsable first
  timestamp, none while loading, and six returned to a load.\<close>

theorem announcement_cards_at_most_five_witness:
  "(\<exists>cards. announcementsCard sample_relativeTime
        (teacher_page_init\<lparr>isLoadingAnnouncements := False, announcements := six_announcements\<rparr>)
       = Inr \<lparr>ann_body = AnnCards cards, viewAll = True\<rparr>
      \<and> map card_key cards = [''a1'', ''a2'', ''a3'', ''a4'', ''a5''])
   \<and> announcementsCard sample_relativeTime
        (teacher_page_init\<lparr>isLoadingAnnouncements := False,
           announcements := undated_announcement # six_announcements\<rparr>) = Inl RangeError
   \<and> (\<exists>c. announcementsCard sample_relativeTime teacher_page_init = Inr c \<and> \<not> viewAll c)
   \<and> (\<forall>n. always n)
   \<and> announcements (teacherDashboardEffect ''teacherUid'' [''teacherUid'' \<mapsto> ''t1'']
        (Some (good_backend [''5A'', ''5B''])) always teacher_page_init) = six_announcements
   \<and> renderTeacherDashboard (teacherDashboardEffect ''teacherUid'' [''teacherUid'' \<mapsto> ''t1'']
        (Some (good_backend [''5A'', ''5B''])) always teacher_page_init) = DashboardReached"
proof -
  let ?st = "teacher_page_init\<lparr>isLoadingAnnouncements := False, announcements := six_announcements\<rparr>"
  let ?bad = "teacher_page_init\<lparr>isLoadingAnnouncements := False,
           announcements := undated_announcement # six_announcements\<rparr>"
  have a: "\<forall>n. always n" by (simp add: always_def)
  have h1: "[''teacherUid'' \<mapsto> ''t1''] ''teacherUid'' = Some ''t1''" by simp
  have h2: "''t1'' \<noteq> []" by simp
  have p: "profileReply (good_backend [''5A'', ''5B'']) ''t1'' = Resolved (Some (teacher_of [''5A'', ''5B''])) None"
    by (simp add: good_backend_def)
  have g: "\<not> rosterFailed (good_backend [''5A'', ''5B'']) ''t1''"
    by (simp add: rosterFailed_def failed_def nonEmptyClasses_def good_backend_def teacher_of_def)
  have r: "announcementsReply (good_backend [''5A'', ''5B'']) = Resolved (Some six_announcements) None"
    by (simp add: good_backend_def)
  have s: "\<not> isLoadingAnnouncements ?st" "\<not> truthy (announcementsError ?st)"
      "announcements ?st = six_announcements" "six_announcements \<noteq> []"
      "length six_announcements > 5"
      "map ann_id (take 5 six_announcements) = [''a1'', ''a2'', ''a3'', ''a4'', ''a5'']"
      "\<forall>a \<in> set (take 5 six_announcements). sample_relativeTime (created_at a) \<noteq> None"
    by (simp_all add: teacher_page_init_def six_announcements_def announcement_of_def
        sample_relativeTime_def)
  have b: "\<not> isLoadingAnnouncements ?bad" "\<not> truthy (announcementsError ?bad)"
      "\<exists>a \<in> set (take 5 (announcements ?bad)). sample_relativeTime (created_at a) = None"
    by (simp_all add: teacher_page_init_def undated_announcement_def sample_relativeTime_def)
  have i: "isLoadingAnnouncements teacher_page_init" "length (announcements teacher_page_init) = 0"
    by (simp_all add: teacher_page_init_def)
  note T = announcement_cards_at_most_five [where st = ?st and rel = sample_relativeTime
      and start = teacher_page_init and m = always
      and ls = "[''teacherUid'' \<mapsto> ''t1'']" and key = "''teacherUid''"
      and be = "good_backend [''5A'', ''5B'']"]
  note U = announcement_cards_at_most_five [where st = ?bad and rel = sample_relativeTime]
  note V = announcement_cards_at_most_five [where st = teacher_page_init and rel = sample_relativeTime]
  note T1 = T [THEN conjunct1]
  note T2 = T [THEN conjunct2, THEN conjunct1]
  note T5 = T [THEN conjunct2, THEN conjunct2, THEN conjunct2, THEN conjunct2]
  note U3 = U [THEN conjunct2, THEN conjunct2, THEN conjunct1]
  note V4 = V [THEN conjunct2, THEN conjunct2, THEN conjunct2, THEN conjunct1]
  have s': "\<not> isLoadingAnnouncements ?st \<and> \<not> truthy (announcementsError ?st) \<and> announcements ?st \<noteq> []
        \<and> (\<forall>a \<in> set (take 5 (announcements ?st)). sample_relativeTime (created_at a) \<noteq> None)"
    using s(1,2,4,7) by (simp only: s(3)) simp
  from T2 [rule_format, OF s'] obtain cards where c: "announcementsCard sample_relativeTime ?st
                   = Inr \<lparr>ann_body = AnnCards cards, viewAll = (length (announcements ?st) > 5)\<rparr>"
    by (rule exE)
  have "ann_body \<lparr>ann_body = AnnCards cards, viewAll = (length (announcements ?st) > 5)\<rparr> = AnnCards cards"
    by simp
  from T1 [rule_format, OF c, THEN conjunct2, rule_format, OF this]
  have "map card_key cards = map ann_id (take 5 (announcements ?st))" by (elim conjE)
  with s(6) have k: "map card_key cards = [''a1'', ''a2'', ''a3'', ''a4'', ''a5'']"
    by (simp only: s(3))
  from c s(5) have c': "announcementsCard sample_relativeTime ?st = Inr \<lparr>ann_body = AnnCards cards, viewAll = True\<rparr>"
    by (simp only: s(3) simp_thms)
  have b': "\<not> isLoadingAnnouncements ?bad \<and> \<not> truthy (announcementsError ?bad)
      \<and> (\<exists>a \<in> set (take 5 (announcements ?bad)). sample_relativeTime (created_at a) = None)"
    using b by (intro conjI)
  from U3 [rule_format, OF b'] have 2: "announcementsCard sample_relativeTime ?bad = Inl RangeError" .
  have i': "isLoadingAnnouncements teacher_page_init \<or> truthy (announcementsError teacher_page_init)
      \<or> announcements teacher_page_init = []"
    using i(1) by (intro disjI1)
  from V4 [rule_format, OF i'] obtain c0 where c0: "announcementsCard sample_relativeTime teacher_page_init = Inr c0
      \<and> viewAll c0 = (length (announcements teacher_page_init) > 5)
      \<and> (\<forall>cards. ann_body c0 \<noteq> AnnCards cards)"
    by (rule exE)
  with i(2) have 3: "\<exists>c. announcementsCard sample_relativeTime teacher_page_init = Inr c \<and> \<not> viewAll c"
    by (intro exI [of _ c0]) simp
  have e: "(\<forall>n. always n) \<and> [''teacherUid'' \<mapsto> ''t1''] ''teacherUid'' = Some ''t1'' \<and> ''t1'' \<noteq> []
          \<and> profileReply (good_backend [''5A'', ''5B'']) ''t1'' = Resolved (Some (teacher_of [''5A'', ''5B''])) None
          \<and> \<not> rosterFailed (good_backend [''5A'', ''5B'']) ''t1''
          \<and> announcementsReply (good_backend [''5A'', ''5B'']) = Resolved (Some six_announcements) None"
    using a h1 h2 p g r by (intro conjI)
  note T5' = T5 [rule_format, OF e]
  from T5' have 4: "announcements (teacherDashboardEffect ''teacherUid'' [''teacherUid'' \<mapsto> ''t1'']
        (Some (good_backend [''5A'', ''5B''])) always teacher_page_init) = six_announcements"
    by (elim conjE)
  from T5' have 5: "renderTeacherDashboard (teacherDashboardEffect ''teacherUid'' [''teacherUid'' \<mapsto> ''t1'']
        (Some (good_backend [''5A'', ''5B''])) always teacher_page_init) = DashboardReached"
    by (elim conjE)
  from c' k have 1: "\<exists>cards. announcementsCard sample_relativeTime ?st
       = Inr \<lparr>ann_body = AnnCards cards, viewAll = True\<rparr>
      \<and> map card_key cards = [''a1'', ''a2'', ''a3'', ''a4'', ''a5'']"
    by (intro exI [of _ cards] conjI)
  from 1 2 3 a 4 5 show ?thesis by (intro conjI)
qed

section \<open>Properties of the login handlers\<close>

text \<open>The two outcomes of the student login.\<close>

lemma student_login_ok:
  assumes "authSucceeded supabase values" "linkedProfileFound supabase values"
  shows "navigated (StudentLoginForm_onSubmit supabase values st) = navigated st @ [''/student/dashboard'']
     \<and> signOuts (StudentLoginForm_onSubmit supabase values st) = signOuts st
     \<and> loginError (StudentLoginForm_onSubmit supabase values st) = None"
  using assms
  by (auto simp: authSucceeded_def linkedProfileFound_def StudentLoginForm_onSubmit_def Let_def
      split: sign_in.splits option.splits reply.splits)

lemma authErrorText_nonempty: "authErrorText t e \<noteq> [] \<or> t = []"
  by (simp add: authErrorText_def Let_def)

lemma student_login_blocked:
  assumes "\<not> (authSucceeded supabase values \<and> linkedProfileFound supabase values)"
  shows "navigated (StudentLoginForm_onSubmit supabase values st) = navigated st
     \<and> signOuts (StudentLoginForm_onSubmit supabase values st) = Suc (signOuts st)
     \<and> truthy (loginError (StudentLoginForm_onSubmit supabase values st))"
  using assms
  by (auto simp: authSucceeded_def linkedProfileFound_def StudentLoginForm_onSubmit_def Let_def
      studentCatch_def signOut_def authErrorText_def connectText_def
      split: sign_in.splits option.splits reply.splits)

lemma student_login_texts:
  "(\<forall>u s e. signInWithPassword supabase (toLowerCase (form_email values)) (form_password values)
              = SignIn u s (Some e) \<longrightarrow>
       loginError (StudentLoginForm_onSubmit supabase values st) =
         Some (if str_includes (toLowerCase (err_message e)) ''invalid login credentials''
               then ''Invalid email or password. Please check your credentials and try again.''
               else if str_includes (toLowerCase (err_message e)) ''email not confirmed''
               then ''Your email has not been confirmed. Please check your inbox for a confirmation link.''
               else ''An unexpected error occurred: '' @ err_message e))
   \<and> (\<forall>u s. signInWithPassword supabase (toLowerCase (form_email values)) (form_password values)
              = SignIn u s None \<and> (u = None \<or> s = None) \<longrightarrow>
       loginError (StudentLoginForm_onSubmit supabase values st)
         = Some ''Could not log in. User or session data missing.'')
   \<and> (\<forall>u s row pe. signInWithPassword supabase (toLowerCase (form_email values)) (form_password values)
              = SignIn (Some u) (Some s) None
          \<and> studentProfileReply supabase (user_id u) = Resolved row (Some pe)
          \<and> err_code pe \<noteq> ''PGRST116'' \<longrightarrow>
       loginError (StudentLoginForm_onSubmit supabase values st)
         = Some ''Could not verify student profile after login. Please contact admin.'')
   \<and> (\<forall>u s pe. signInWithPassword supabase (toLowerCase (form_email values)) (form_password values)
              = SignIn (Some u) (Some s) None
          \<and> studentProfileReply supabase (user_id u) = Resolved None pe
          \<and> (pe = None \<or> err_code (the pe) = ''PGRST116'') \<longrightarrow>
       loginError (StudentLoginForm_onSubmit supabase values st)
         = Some ''No student profile associated with this login account. Please contact admin.'')
   \<and> (\<forall>e. (signInWithPassword supabase (toLowerCase (form_email values)) (form_password values)
               = SignInRejected e
             \<or> (\<exists>u s. signInWithPassword supabase (toLowerCase (form_email values)) (form_password values)
                        = SignIn (Some u) (Some s) None
                      \<and> studentProfileReply supabase (user_id u) = Rejected e)) \<longrightarrow>
       loginError (StudentLoginForm_onSubmit supabase values st)
         = Some (if truthy (thrown_message e)
                    \<and> str_includes (toLowerCase (the (thrown_message e))) ''failed to fetch''
                 then ''Could not connect to the server. Please check your internet connection and ensure the Supabase URL in your .env file is correct.''
                 else ''An unexpected error occurred: '' @ orElse (thrown_message e) ''Unknown error'' @ ''.''))"
  by (auto simp: StudentLoginForm_onSubmit_def Let_def studentCatch_def signOut_def
      authErrorText_def connectText_def failedToFetch_def)

text \<open>
  C5.  The student login handler navigates to the student dashboard exactly when the
  password sign-in resolved without error with a user and a session and the profile
  look-up for that user returned a row (with no error other than code PGRST116).  Then
  it neither signs out nor shows an error.  On every other path (auth error, missing
  user or session, look-up error other than PGRST116, no row, a rejected call) it does
  not navigate, calls sign-out once and sets \<open>loginError\<close> to a non-empty text, which
  the form shows in its alert; the text of each path is the one given.
\<close>

theorem student_login_gate:
  "(navigated (StudentLoginForm_onSubmit supabase values st) = navigated st @ [''/student/dashboard'']
      \<longleftrightarrow> authSucceeded supabase values \<and> linkedProfileFound supabase values)
   \<and> (authSucceeded supabase values \<and> linkedProfileFound supabase values \<longrightarrow>
        signOuts (StudentLoginForm_onSubmit supabase values st) = signOuts st
        \<and> loginError (StudentLoginForm_onSubmit supabase values st) = None
        \<and> loginAlert (StudentLoginForm_onSubmit supabase values st) = None)
   \<and> (\<not> (authSucceeded supabase values \<and> linkedProfileFound supabase values) \<longrightarrow>
        navigated (StudentLoginForm_onSubmit supabase values st) = navigated st
        \<and> signOuts (StudentLoginForm_onSubmit supabase values st) = Suc (signOuts st)
        \<and> loginError (StudentLoginForm_onSubmit supabase values st) \<noteq> None
        \<and> truthy (loginError (StudentLoginForm_onSubmit supabase values st))
        \<and> loginAlert (StudentLoginForm_onSubmit supabase values st)
            = loginError (StudentLoginForm_onSubmit supabase values st))
   \<and> (\<forall>u s e. signInWithPassword supabase (toLowerCase (form_email values)) (form_password values)
              = SignIn u s (Some e) \<longrightarrow>
       loginError (StudentLoginForm_onSubmit supabase values st) =
         Some (if str_includes (toLowerCase (err_message e)) ''invalid login credentials''
               then ''Invalid email or password. Please check your credentials and try again.''
               else if str_includes (toLowerCase (err_message e)) ''email not confirmed''
               then ''Your email has not been confirmed. Please check your inbox for a confirmation link.''
               else ''An unexpected error occurred: '' @ err_message e))
   \<and> (\<forall>u s. signInWithPassword supabase (toLowerCase (form_email values)) (form_password values)
              = SignIn u s None \<and> (u = None \<or> s = None) \<longrightarrow>
       loginError (StudentLoginForm_onSubmit supabase values st)
         = Some ''Could not log in. User or session data missing.'')
   \<and> (\<forall>u s row pe. signInWithPassword supabase (toLowerCase (form_email values)) (form_password values)
              = SignIn (Some u) (Some s) None
          \<and> studentProfileReply supabase (user_id u) = Resolved row (Some pe)
          \<and> err_code pe \<noteq> ''PGRST116'' \<longrightarrow>
       loginError (StudentLoginForm_onSubmit supabase values st)
         = Some ''Could not verify student profile after login. Please contact admin.'')
   \<and> (\<forall>u s pe. signInWithPassword supabase (toLowerCase (form_email values)) (form_password values)
              = SignIn (Some u) (Some s) None
          \<and> studentProfileReply supabase (user_id u) = Resolved None pe
          \<and> (pe = None \<or> err_code (the pe) = ''PGRST116'') \<longrightarrow>
       loginError (StudentLoginForm_onSubmit supabase values st)
         = Some ''No student profile associated with this login account. Please contact admin.'')
   \<and> (\<forall>e. (signInWithPassword supabase (toLowerCase (form_email values)) (form_password values)
               = SignInRejected e
             \<or> (\<exists>u s. signInWithPassword supabase (toLowerCase (form_email values)) (form_password values)
                        = SignIn (Some u) (Some s) None
                      \<and> studentProfileReply supabase (user_id u) = Rejected e)) \<longrightarrow>
       loginError (StudentLoginForm_onSubmit supabase values st)
         = Some (if truthy (thrown_message e)
                    \<and> str_includes (toLowerCase (the (thrown_message e))) ''failed to fetch''
                 then ''Could not connect to the server. Please check your internet connection and ensure the Supabase URL in your .env file is correct.''
                 else ''An unexpected error occurred: '' @ orElse (thrown_message e) ''Unknown error'' @ ''.''))"
proof -
  let ?ok = "authSucceeded supabase values \<and> linkedProfileFound supabase values"
  let ?r = "StudentLoginForm_onSubmit supabase values st"
  note ok = student_login_ok [of supabase "values" st]
  note blocked = student_login_blocked [of supabase "values" st]
  note T = student_login_texts [of supabase "values" st]
  have g1: "navigated ?r = navigated st @ [''/student/dashboard''] \<longleftrightarrow> ?ok"
  proof (cases ?ok)
    case True
    with ok show ?thesis by simp
  next
    case False
    with blocked show ?thesis by simp
  qed
  have g2: "?ok \<longrightarrow> signOuts ?r = signOuts st \<and> loginError ?r = None \<and> loginAlert ?r = None"
    using ok by (simp add: loginAlert_def)
  have g3: "\<not> ?ok \<longrightarrow> navigated ?r = navigated st \<and> signOuts ?r = Suc (signOuts st)
      \<and> loginError ?r \<noteq> None \<and> truthy (loginError ?r) \<and> loginAlert ?r = loginError ?r"
  proof
    assume n: "\<not> ?ok"
    note b = blocked [OF n]
    from b have t: "truthy (loginError ?r)" by simp
    then have "loginError ?r \<noteq> None" by (cases "loginError ?r") simp_all
    with b t show "navigated ?r = navigated st \<and> signOuts ?r = Suc (signOuts st)
      \<and> loginError ?r \<noteq> None \<and> truthy (loginError ?r) \<and> loginAlert ?r = loginError ?r"
      by (simp add: loginAlert_def)
  qed
  note t1 = T [THEN conjunct1]
  note t2 = T [THEN conjunct2, THEN conjunct1]
  note t3 = T [THEN conjunct2, THEN conjunct2, THEN conjunct1]
  note t4 = T [THEN conjunct2, THEN conjunct2, THEN conjunct2, THEN conjunct1]
  note t5 = T [THEN conjunct2, THEN conjunct2, THEN conjunct2, THEN conjunct2]
  from g1 g2 g3 t1 t2 t3 t4 t5 show ?thesis by (intro conjI)
qed

text \<open>Witness for C5: a provisioned student, an account without a student row, a
  wrong password.\<close>

theorem student_login_gate_witness:
  "authSucceeded provisioned_auth sample_values \<and> linkedProfileFound provisioned_auth sample_values
   \<and> navigated (StudentLoginForm_onSubmit provisioned_auth sample_values login_form_init)
       = [''/student/dashboard'']
   \<and> signOuts (StudentLoginForm_onSubmit provisioned_auth sample_values login_form_init) = 0
   \<and> loginAlert (StudentLoginForm_onSubmit provisioned_auth sample_values login_form_init) = None
   \<and> authSucceeded unprovisioned_auth sample_values
   \<and> \<not> linkedProfileFound unprovisioned_auth sample_values
   \<and> navigated (StudentLoginForm_onSubmit unprovisioned_auth sample_values login_form_init) = []
   \<and> signOuts (StudentLoginForm_onSubmit unprovisioned_auth sample_values login_form_init) = 1
   \<and> loginAlert (StudentLoginForm_onSubmit unprovisioned_auth sample_values login_form_init)
       = Some ''No student profile associated with this login account. Please contact admin.''
   \<and> \<not> authSucceeded wrong_password_auth sample_values
   \<and> navigated (StudentLoginForm_onSubmit wrong_password_auth sample_values login_form_init) = []
   \<and> signOuts (StudentLoginForm_onSubmit wrong_password_auth sample_values login_form_init) = 1
   \<and> loginAlert (StudentLoginForm_onSubmit wrong_password_auth sample_values login_form_init)
       = Some ''Invalid email or password. Please check your credentials and try again.''"
proof -
  let ?in = "\<lambda>b. signInWithPassword b (toLowerCase (form_email sample_values)) (form_password sample_values)"
  let ?pe = "\<lparr>err_message = ''no rows returned'', err_code = ''PGRST116''\<rparr>"
  let ?ae = "\<lparr>err_message = ''Invalid login credentials'', err_code = ''400''\<rparr>"
  have a: "authSucceeded provisioned_auth sample_values"
      "linkedProfileFound provisioned_auth sample_values"
    by (simp_all add: authSucceeded_def linkedProfileFound_def provisioned_auth_def)
  have b: "authSucceeded unprovisioned_auth sample_values"
      "\<not> linkedProfileFound unprovisioned_auth sample_values"
    by (simp_all add: authSucceeded_def linkedProfileFound_def unprovisioned_auth_def provisioned_auth_def)
  have c: "\<not> authSucceeded wrong_password_auth sample_values"
    by (simp add: authSucceeded_def wrong_password_auth_def provisioned_auth_def)
  have ub: "?in unprovisioned_auth = SignIn (Some sample_user) (Some (Session ''token'')) None
      \<and> studentProfileReply unprovisioned_auth (user_id sample_user) = Resolved None (Some ?pe)
      \<and> (Some ?pe = None \<or> err_code (the (Some ?pe)) = ''PGRST116'')"
    by (simp add: unprovisioned_auth_def provisioned_auth_def)
  have wb: "?in wrong_password_auth = SignIn None None (Some ?ae)"
    by (simp add: wrong_password_auth_def provisioned_auth_def)
  have lc: "str_includes (toLowerCase (err_message ?ae)) ''invalid login credentials''"
    by code_simp
  note P = student_login_gate [of provisioned_auth sample_values login_form_init]
  note U = student_login_gate [of unprovisioned_auth sample_values login_form_init]
  note W = student_login_gate [of wrong_password_auth sample_values login_form_init]
  have a': "authSucceeded provisioned_auth sample_values \<and> linkedProfileFound provisioned_auth sample_values"
    using a by (intro conjI)
  have b': "\<not> (authSucceeded unprovisioned_auth sample_values \<and> linkedProfileFound unprovisioned_auth sample_values)"
    using b by simp
  have c': "\<not> (authSucceeded wrong_password_auth sample_values \<and> linkedProfileFound wrong_password_auth sample_values)"
    using c by simp
  from P [THEN conjunct1] a' have p1: "navigated (StudentLoginForm_onSubmit provisioned_auth sample_values login_form_init)
       = navigated login_form_init @ [''/student/dashboard'']" by (rule iffD2)
  note p2 = P [THEN conjunct2, THEN conjunct1, rule_format, OF a']
  note u3 = U [THEN conjunct2, THEN conjunct2, THEN conjunct1, rule_format, OF b']
  note w3 = W [THEN conjunct2, THEN conjunct2, THEN conjunct1, rule_format, OF c']
  note u7 = U [THEN conjunct2, THEN conjunct2, THEN conjunct2, THEN conjunct2, THEN conjunct2,
      THEN conjunct2, THEN conjunct1, rule_format, OF ub]
  note w4 = W [THEN conjunct2, THEN conjunct2, THEN conjunct2, THEN conjunct1, rule_format, OF wb]
  from w4 lc have w4': "loginError (StudentLoginForm_onSubmit wrong_password_auth sample_values login_form_init)
      = Some ''Invalid email or password. Please check your credentials and try again.''"
    by (simp only: if_True)
  from p1 p2 have 1: "navigated (StudentLoginForm_onSubmit provisioned_auth sample_values login_form_init)
       = [''/student/dashboard'']"
      "signOuts (StudentLoginForm_onSubmit provisioned_auth sample_values login_form_init) = 0"
      "loginAlert (StudentLoginForm_onSubmit provisioned_auth sample_values login_form_init) = None"
    by (simp_all add: login_form_init_def)
  from u3 u7 have 2: "navigated (StudentLoginForm_onSubmit unprovisioned_auth sample_values login_form_init) = []"
      "signOuts (StudentLoginForm_onSubmit unprovisioned_auth sample_values login_form_init) = 1"
      "loginAlert (StudentLoginForm_onSubmit unprovisioned_auth sample_values login_form_init)
       = Some ''No student profile associated with this login account. Please contact admin.''"
    by (simp_all add: login_form_init_def)
  from w3 w4' have 3: "navigated (StudentLoginForm_onSubmit wrong_password_auth sample_values login_form_init) = []"
      "signOuts (StudentLoginForm_onSubmit wrong_password_auth sample_values login_form_init) = 1"
      "loginAlert (StudentLoginForm_onSubmit wrong_password_auth sample_values login_form_init)
       = Some ''Invalid email or password. Please check your credentials and try again.''"
    by (simp_all add: login_form_init_def)
  from a b c 1 2 3 show ?thesis by (intro conjI)
qed

text \<open>
  C6, as stated, has the flag set and the dashboard reached for every sign-in that
  returns a user and a session.  With a storage that is full the write of the flag
  throws: the handler signs out, reports an error and does not navigate, and the flag is
  not set.
\<close>

theorem admin_login_counterexample:
  "signInWithPassword provisioned_auth (toLowerCase (form_email sample_values)) (form_password sample_values)
     = SignIn (Some sample_user) (Some (Session ''token'')) None
   \<and> navigated (AdminLoginForm_onSubmit ''adminLoggedIn'' storage_full provisioned_auth sample_values login_form_init) = []
   \<and> localStorage (AdminLoginForm_onSubmit ''adminLoggedIn'' storage_full provisioned_auth sample_values login_form_init)
        ''adminLoggedIn'' = None
   \<and> signOuts (AdminLoginForm_onSubmit ''adminLoggedIn'' storage_full provisioned_auth sample_values login_form_init) = 1"
  by (simp add: AdminLoginForm_onSubmit_def adminCatch_def signOut_def storage_full_def
      provisioned_auth_def login_form_init_def Let_def)

text \<open>
  C6, amended.  The admin login form performs no role verification: whenever the sign-in
  resolves without error with a user and a session, whoever the user is, the handler
  makes no look-up and writes "true" under the admin-logged-in key; when the write
  succeeds the flag is set, the welcome toast is shown and the handler navigates to the
  admin dashboard route, without sign-out or error; when the write throws, the storage
  stays as it was and the handler signs out once, sets a non-empty \<open>loginError\<close> and
  does not navigate.
\<close>

theorem admin_login_no_role_check:
  assumes "signInWithPassword supabase (toLowerCase (form_email values)) (form_password values)
             = SignIn (Some u) (Some s) None"
  shows "lookups (AdminLoginForm_onSubmit key setItemThrows supabase values st) = lookups st
     \<and> (setItemThrows key ''true'' (localStorage st) = None \<longrightarrow>
          localStorage (AdminLoginForm_onSubmit key setItemThrows supabase values st)
            = (localStorage st)(key \<mapsto> ''true'')
          \<and> navigated (AdminLoginForm_onSubmit key setItemThrows supabase values st)
            = navigated st @ [''/admin/dashboard'']
          \<and> toasts (AdminLoginForm_onSubmit key setItemThrows supabase values st)
            = toasts st @ [(''Login Successful'',
                 ''Welcome back, '' @ orElse (metadata_full_name u) ''Admin''
                 @ ''! Redirecting to dashboard...'')]
          \<and> signOuts (AdminLoginForm_onSubmit key setItemThrows supabase values st) = signOuts st
          \<and> loginError (AdminLoginForm_onSubmit key setItemThrows supabase values st) = None)
     \<and> (\<forall>e. setItemThrows key ''true'' (localStorage st) = Some e \<longrightarrow>
          localStorage (AdminLoginForm_onSubmit key setItemThrows supabase values st) = localStorage st
          \<and> navigated (AdminLoginForm_onSubmit key setItemThrows supabase values st) = navigated st
          \<and> toasts (AdminLoginForm_onSubmit key setItemThrows supabase values st) = toasts st
          \<and> signOuts (AdminLoginForm_onSubmit key setItemThrows supabase values st) = Suc (signOuts st)
          \<and> truthy (loginError (AdminLoginForm_onSubmit key setItemThrows supabase values st))
          \<and> loginError (AdminLoginForm_onSubmit key setItemThrows supabase values st)
              = Some (if truthy (thrown_message e)
                         \<and> str_includes (toLowerCase (the (thrown_message e))) ''failed to fetch''
                      then ''Could not connect to the server. Please check your internet connection and ensure the Supabase URL in your .env file is correct.''
                      else ''An unexpected error occurred. Please try again.''))"
  using assms
  by (simp add: AdminLoginForm_onSubmit_def adminCatch_def signOut_def failedToFetch_def
      connectText_def Let_def split: option.splits)

text \<open>Witness for C6: an account that has no student or admin record at all, with a
  storage that takes the write and with one that is full.\<close>

theorem admin_login_no_role_check_witness:
  "signInWithPassword unprovisioned_auth (toLowerCase (form_email sample_values)) (form_password sample_values)
     = SignIn (Some sample_user) (Some (Session ''token'')) None
   \<and> storage_ok ''adminLoggedIn'' ''true'' (localStorage login_form_init) = None
   \<and> localStorage (AdminLoginForm_onSubmit ''adminLoggedIn'' storage_ok unprovisioned_auth sample_values login_form_init)
        ''adminLoggedIn'' = Some ''true''
   \<and> navigated (AdminLoginForm_onSubmit ''adminLoggedIn'' storage_ok unprovisioned_auth sample_values login_form_init)
       = [''/admin/dashboard'']
   \<and> storage_full ''adminLoggedIn'' ''true'' (localStorage login_form_init)
       = Some (Thrown (Some ''The quota has been exceeded.''))
   \<and> navigated (AdminLoginForm_onSubmit ''adminLoggedIn'' storage_full unprovisioned_auth sample_values login_form_init)
       = []
   \<and> signOuts (AdminLoginForm_onSubmit ''adminLoggedIn'' storage_full unprovisioned_auth sample_values login_form_init)
       = 1"
proof -
  have h: "signInWithPassword unprovisioned_auth (toLowerCase (form_email sample_values)) (form_password sample_values)
     = SignIn (Some sample_user) (Some (Session ''token'')) None"
    by (simp add: unprovisioned_auth_def provisioned_auth_def)
  have o: "storage_ok ''adminLoggedIn'' ''true'' (localStorage login_form_init) = None"
    by (simp add: storage_ok_def)
  have f: "storage_full ''adminLoggedIn'' ''true'' (localStorage login_form_init)
       = Some (Thrown (Some ''The quota has been exceeded.''))"
    by (simp add: storage_full_def)
  note A = admin_login_no_role_check [OF h, of "''adminLoggedIn''" storage_ok login_form_init]
  note B = admin_login_no_role_check [OF h, of "''adminLoggedIn''" storage_full login_form_init]
  note A2 = A [THEN conjunct2, THEN conjunct1, rule_format, OF o]
  note B3 = B [THEN conjunct2, THEN conjunct2, rule_format, OF f]
  from A2 have 1: "localStorage (AdminLoginForm_onSubmit ''adminLoggedIn'' storage_ok unprovisioned_auth sample_values login_form_init)
        ''adminLoggedIn'' = Some ''true''"
      "navigated (AdminLoginForm_onSubmit ''adminLoggedIn'' storage_ok unprovisioned_auth sample_values login_form_init)
       = [''/admin/dashboard'']"
    by (simp_all add: login_form_init_def)
  from B3 have 2: "navigated (AdminLoginForm_onSubmit ''adminLoggedIn'' storage_full unprovisioned_auth sample_values login_form_init)
       = []"
      "signOuts (AdminLoginForm_onSubmit ''adminLoggedIn'' storage_full unprovisioned_auth sample_values login_form_init)
       = 1"
    by (simp_all add: login_form_init_def)
  from h o f 1 2 show ?thesis by (intro conjI)
qed

end
